theory Spec2Isabelle
  imports Main "HOL-Library.Word" "HOL-Library.AList"
begin

section \<open>The WAD file handle of \<^verbatim>\<open>w_handle.c\<close>\<close>

text \<open>
  The file embeds \<^verbatim>\<open>src/w_handle.c\<close> as compiled with \<^verbatim>\<open>HAVE_WHANDLE\<close> and
  \<^verbatim>\<open>HAVE_SDL\<close> defined. Conventions:
  \<^item> the data model is LP64: \<^verbatim>\<open>int\<close> has 32 bits, \<^verbatim>\<open>long int\<close>, \<^verbatim>\<open>size_t\<close> and SDL's
    \<^verbatim>\<open>Sint64\<close> have 64 bits, plain \<^verbatim>\<open>char\<close> is signed. Integer values are HOL integers;
    a conversion that can change the value is written out (\<open>to_int\<close>, \<open>to_size_t\<close>,
    \<open>to_long\<close>), a conversion between \<^verbatim>\<open>long int\<close> and \<^verbatim>\<open>Sint64\<close> is the identity;
  \<^item> a pointer is a natural number, \<open>0\<close> is the null pointer;
  \<^item> handles and the strings they own live in an explicit heap, so that \<^verbatim>\<open>calloc\<close>
    and \<^verbatim>\<open>free\<close> are visible; \<^verbatim>\<open>calloc\<close> is taken to succeed (the source never tests
    its result);
  \<^item> undefined behaviour of C (a dangling handle, a write past a buffer, a read of
    an uninitialised \<^verbatim>\<open>char\<close>) and the fatal error of \<^verbatim>\<open>I_Error\<close> are values of type
    \<open>fault\<close>; every function returns \<open>fault + result\<close>.
\<close>

subsection \<open>Machine integers, pointers, faults\<close>

type_synonym ptr = nat
type_synonym byte = "8 word"

abbreviation (input) NULL :: ptr where
  "NULL \<equiv> 0"

text \<open>\<^verbatim>\<open>EOF\<close> of \<^verbatim>\<open><stdio.h>\<close>.\<close>

definition EOF :: int where
  "EOF = - 1"

text \<open>\<^verbatim>\<open>(int)x\<close> for a 64-bit \<open>x\<close>: the low 32 bits, read as two's complement.\<close>

definition to_int :: "int \<Rightarrow> int" where
  "to_int x = sint (word_of_int x :: 32 word)"

text \<open>\<^verbatim>\<open>(size_t)x\<close>: the value modulo \<open>2 ^ 64\<close>.\<close>

definition to_size_t :: "int \<Rightarrow> nat" where
  "to_size_t x = unat (word_of_int x :: 64 word)"

text \<open>\<^verbatim>\<open>(long int)n\<close> for a \<^verbatim>\<open>size_t\<close> \<open>n\<close>: the 64 bits read as two's complement.\<close>

definition to_long :: "nat \<Rightarrow> int" where
  "to_long n = sint (of_nat n :: 64 word)"

definition LONG_MAX :: nat where
  "LONG_MAX = 2 ^ 63 - 1"

datatype fault = Fatal string | Undefined_Behaviour

text \<open>Sequencing of calls that may fault.\<close>

definition bnd :: "fault + 'a \<Rightarrow> ('a \<Rightarrow> fault + 'b) \<Rightarrow> fault + 'b" where
  "bnd m k = (case m of Inl e \<Rightarrow> Inl e | Inr x \<Rightarrow> k x)"

text \<open>
  Modelled from the spec: \<^verbatim>\<open>I_Error\<close> is declared in \<^verbatim>\<open>i_system.h\<close>, which is not
  part of the sources at hand. The spec describes it as the fatal-error facility
  that terminates the process rather than returning a value; the call therefore
  yields the fault \<open>Fatal\<close> with the message, and nothing after it is executed.
\<close>

definition I_Error :: "string \<Rightarrow> fault + 'a" where
  "I_Error msg = Inl (Fatal msg)"

subsection \<open>The handle record\<close>

text \<open>
  Modelled from the spec: \<^verbatim>\<open>fhandletype_t\<close> and \<^verbatim>\<open>filehandle_t\<close> are declared in
  \<^verbatim>\<open>w_handle.h\<close>, which is not part of the sources at hand. The kind is one of
  Standard and AbstractStream (\<^verbatim>\<open>FILEHANDLE_STANDARD\<close>, \<^verbatim>\<open>FILEHANDLE_SDL\<close> in the
  source); a C enumeration object can also hold any other integer, which is the
  third constructor. The record has the fields that \<^verbatim>\<open>w_handle.c\<close> assigns.
\<close>

datatype fhandletype_t = FILEHANDLE_STANDARD | FILEHANDLE_SDL | FILEHANDLE_OTHER int

text \<open>The addresses of the backend functions, as stored in a handle.\<close>

datatype entry_point =
    No_entry
  | Addr_File_StandardRead | Addr_File_StandardSeek | Addr_File_StandardTell
  | Addr_File_StandardSize | Addr_File_StandardGetChar | Addr_File_StandardGetString
  | Addr_File_StandardClose | Addr_File_StandardError | Addr_File_StandardEOF
  | Addr_File_SDLRead | Addr_File_SDLSeek | Addr_File_SDLTell
  | Addr_File_SDLSize | Addr_File_SDLGetChar | Addr_File_SDLGetString
  | Addr_File_SDLClose | Addr_File_SDLError | Addr_File_SDLEOF

record filehandle_t =
  h_type :: fhandletype_t
  h_file :: ptr
  h_read :: entry_point
  h_seek :: entry_point
  h_tell :: entry_point
  h_size :: entry_point
  h_getchar :: entry_point
  h_getstring :: entry_point
  h_close :: entry_point
  h_error :: entry_point
  h_eof :: entry_point
  h_lasterror :: ptr

text \<open>What \<^verbatim>\<open>calloc(sizeof(filehandle_t), 1)\<close> returns: every field zero.\<close>

definition zeroed_handle :: filehandle_t where
  "zeroed_handle =
     \<lparr>h_type = FILEHANDLE_STANDARD, h_file = NULL,
      h_read = No_entry, h_seek = No_entry, h_tell = No_entry, h_size = No_entry,
      h_getchar = No_entry, h_getstring = No_entry, h_close = No_entry,
      h_error = No_entry, h_eof = No_entry, h_lasterror = NULL\<rparr>"

subsection \<open>The heap\<close>

text \<open>
  A heap block is a handle record or a character array that holds a C string:
  \<open>Chars n s\<close> is a block of \<open>n\<close> bytes whose content up to the first zero byte is
  \<open>s\<close>. The heap lists the live blocks with their addresses.
\<close>

datatype cell = Handle filehandle_t | Chars nat string

type_synonym heap = "(ptr \<times> cell) list"

definition fresh :: "heap \<Rightarrow> ptr" where
  "fresh hp = Suc (fold max (map fst hp) 0)"

text \<open>\<^verbatim>\<open>calloc\<close>: a new block at an address that no live block has, never null.\<close>

definition calloc :: "heap \<Rightarrow> cell \<Rightarrow> ptr \<times> heap" where
  "calloc hp c = (fresh hp, (fresh hp, c) # hp)"

text \<open>\<^verbatim>\<open>free\<close>: the block is gone; freeing what is not a live block is undefined.\<close>

definition free :: "heap \<Rightarrow> ptr \<Rightarrow> fault + heap" where
  "free hp p =
     (if p = NULL then Inr hp
      else if map_of hp p = None then Inl Undefined_Behaviour
      else Inr (AList.delete p hp))"

text \<open>Reading and writing \<^verbatim>\<open>*(filehandle_t *)f\<close>.\<close>

definition get_handle :: "heap \<Rightarrow> ptr \<Rightarrow> fault + filehandle_t" where
  "get_handle hp f =
     (if f = NULL then Inl Undefined_Behaviour
      else case map_of hp f of Some (Handle h) \<Rightarrow> Inr h | _ \<Rightarrow> Inl Undefined_Behaviour)"

definition put_handle :: "heap \<Rightarrow> ptr \<Rightarrow> filehandle_t \<Rightarrow> fault + heap" where
  "put_handle hp f h =
     (case map_of hp f of
        Some (Handle _) \<Rightarrow> Inr (AList.update f (Handle h) hp)
      | _ \<Rightarrow> Inl Undefined_Behaviour)"

text \<open>\<^verbatim>\<open>strcpy(dst, src)\<close> into a heap block: the string and its terminator must fit.\<close>

definition strcpy :: "heap \<Rightarrow> ptr \<Rightarrow> string \<Rightarrow> fault + heap" where
  "strcpy hp dst src =
     (if dst = NULL then Inl Undefined_Behaviour
      else case map_of hp dst of
             Some (Chars n _) \<Rightarrow>
               if length src + 1 \<le> n then Inr (AList.update dst (Chars n src) hp)
               else Inl Undefined_Behaviour
           | _ \<Rightarrow> Inl Undefined_Behaviour)"

text \<open>The C string a pointer refers to; \<open>None\<close> for the null pointer.\<close>

definition c_string :: "heap \<Rightarrow> ptr \<Rightarrow> fault + string option" where
  "c_string hp p =
     (if p = NULL then Inr None
      else case map_of hp p of
             Some (Chars _ s) \<Rightarrow> Inr (Some s)
           | _ \<Rightarrow> Inl Undefined_Behaviour)"

text \<open>The addresses of the live blocks.\<close>

definition live :: "heap \<Rightarrow> ptr set" where
  "live hp = fst ` set hp"

subsection \<open>Caller-supplied buffers\<close>

text \<open>
  A buffer is the array the caller passes, as the list of its bytes: its length
  is the capacity. A store outside it is undefined behaviour.
\<close>

definition store_bytes :: "byte list \<Rightarrow> byte list \<Rightarrow> fault + byte list" where
  "store_bytes buf bs =
     (if length bs \<le> length buf then Inr (bs @ drop (length bs) buf)
      else Inl Undefined_Behaviour)"

definition store_at :: "byte list \<Rightarrow> int \<Rightarrow> byte \<Rightarrow> fault + byte list" where
  "store_at buf i b =
     (if 0 \<le> i \<and> i < int (length buf) then Inr (buf[nat i := b])
      else Inl Undefined_Behaviour)"

subsection \<open>The C library's streams\<close>

text \<open>
  The \<^verbatim>\<open>FILE\<close> of \<^verbatim>\<open><stdio.h>\<close> on a regular file opened for reading: the bytes of the
  file, the position, the end-of-file and the error indicator. The functions
  below follow the C standard: \<^verbatim>\<open>fseek\<close> may move past the end and clears the
  end-of-file indicator, \<^verbatim>\<open>fgetc\<close> sets it when nothing is left, \<^verbatim>\<open>fgets\<close> reads at most
  \<open>n - 1\<close> characters, stops behind a newline and appends the terminator.
\<close>

record FILE =
  f_data :: "byte list"
  f_pos :: nat
  f_eof :: bool
  f_err :: bool

definition SEEK_SET :: int where "SEEK_SET = 0"
definition SEEK_CUR :: int where "SEEK_CUR = 1"
definition SEEK_END :: int where "SEEK_END = 2"

definition ftell_FILE :: "FILE \<Rightarrow> int" where
  "ftell_FILE F = (if f_pos F \<le> LONG_MAX then int (f_pos F) else - 1)"

definition seek_base :: "FILE \<Rightarrow> int \<Rightarrow> int option" where
  "seek_base F origin =
     (if origin = SEEK_SET then Some 0
      else if origin = SEEK_CUR then Some (int (f_pos F))
      else if origin = SEEK_END then Some (int (length (f_data F)))
      else None)"

definition fseek_FILE :: "FILE \<Rightarrow> int \<Rightarrow> int \<Rightarrow> int \<times> FILE" where
  "fseek_FILE F offset origin =
     (case seek_base F origin of
        None \<Rightarrow> (- 1, F)
      | Some b \<Rightarrow>
          if 0 \<le> b + offset \<and> b + offset \<le> int LONG_MAX
          then (0, F\<lparr>f_pos := nat (b + offset), f_eof := False\<rparr>)
          else (- 1, F))"

definition fgetc_FILE :: "FILE \<Rightarrow> int \<times> FILE" where
  "fgetc_FILE F =
     (if f_pos F < length (f_data F)
      then (uint (f_data F ! f_pos F), F\<lparr>f_pos := Suc (f_pos F)\<rparr>)
      else (EOF, F\<lparr>f_eof := True\<rparr>))"

text \<open>The characters \<^verbatim>\<open>fgets\<close> takes when it may take at most \<open>k\<close>.\<close>

fun fgets_chars :: "nat \<Rightarrow> FILE \<Rightarrow> byte list \<times> FILE" where
  "fgets_chars 0 F = ([], F)"
| "fgets_chars (Suc k) F =
     (case fgetc_FILE F of
        (c, F1) \<Rightarrow>
          if c = EOF then ([], F1)
          else if c = 10 then ([word_of_int c], F1)
          else (case fgets_chars k F1 of (cs, F2) \<Rightarrow> (word_of_int c # cs, F2)))"

text \<open>
  \<^verbatim>\<open>fgets(str, n, F)\<close>: the flag says whether \<open>str\<close> (rather than the null pointer)
  is returned. With \<open>n \<le> 0\<close> nothing is read and the null pointer is returned;
  with \<open>n = 1\<close> only the terminator is stored.
\<close>

definition fgets_FILE :: "FILE \<Rightarrow> byte list \<Rightarrow> int \<Rightarrow> fault + ((bool \<times> byte list) \<times> FILE)" where
  "fgets_FILE F str n =
     (if n \<le> 0 then Inr ((False, str), F)
      else case fgets_chars (nat (n - 1)) F of
             (cs, F1) \<Rightarrow>
               if cs = [] \<and> 1 < n then Inr ((False, str), F1)
               else bnd (store_bytes str (cs @ [0])) (\<lambda>str1. Inr ((True, str1), F1)))"

definition ferror_FILE :: "FILE \<Rightarrow> int" where
  "ferror_FILE F = (if f_err F then 1 else 0)"

text \<open>The open streams, by address; using a pointer that is no open stream is undefined.\<close>

type_synonym stdio = "(ptr \<times> FILE) list"

definition get_FILE :: "stdio \<Rightarrow> ptr \<Rightarrow> fault + FILE" where
  "get_FILE st p = (case map_of st p of Some F \<Rightarrow> Inr F | None \<Rightarrow> Inl Undefined_Behaviour)"

definition ftell :: "stdio \<Rightarrow> ptr \<Rightarrow> fault + int" where
  "ftell st p = bnd (get_FILE st p) (\<lambda>F. Inr (ftell_FILE F))"

definition fseek :: "stdio \<Rightarrow> ptr \<Rightarrow> int \<Rightarrow> int \<Rightarrow> fault + (int \<times> stdio)" where
  "fseek st p offset origin =
     bnd (get_FILE st p) (\<lambda>F.
       case fseek_FILE F offset origin of (r, F1) \<Rightarrow> Inr (r, AList.update p F1 st))"

definition fgets :: "stdio \<Rightarrow> byte list \<Rightarrow> int \<Rightarrow> ptr \<Rightarrow> fault + ((bool \<times> byte list) \<times> stdio)" where
  "fgets st str n p =
     bnd (get_FILE st p) (\<lambda>F.
     bnd (fgets_FILE F str n) (\<lambda>(r, F1). Inr (r, AList.update p F1 st)))"

definition ferror :: "stdio \<Rightarrow> ptr \<Rightarrow> fault + int" where
  "ferror st p = bnd (get_FILE st p) (\<lambda>F. Inr (ferror_FILE F))"

subsection \<open>The externally supplied primitives\<close>

text \<open>
  What lies outside the program and is not fixed by the C standard is a parameter:
  opening a named resource (\<^verbatim>\<open>fopen\<close>, \<^verbatim>\<open>SDL_RWFromFile\<close>; the null pointer means
  failure) and the reader-seeker abstraction \<^verbatim>\<open>SDL_RWops\<close> with its diagnostic text.
  \<open>'w\<close> is the state of the multimedia library (its streams and its error text).
  \<^verbatim>\<open>SDL_RWread w ctx size maxnum\<close> gives the number of objects read and the bytes it
  stored at the destination; \<^verbatim>\<open>SDL_RWseek\<close>, \<^verbatim>\<open>SDL_RWtell\<close> and \<^verbatim>\<open>SDL_RWsize\<close> give
  their \<^verbatim>\<open>Sint64\<close> result.
\<close>

record 'w externs =
  fopen :: "stdio \<Rightarrow> string \<Rightarrow> string \<Rightarrow> ptr \<times> stdio"
  SDL_RWFromFile :: "'w \<Rightarrow> string \<Rightarrow> string \<Rightarrow> ptr \<times> 'w"
  SDL_RWread :: "'w \<Rightarrow> ptr \<Rightarrow> nat \<Rightarrow> nat \<Rightarrow> (nat \<times> byte list) \<times> 'w"
  SDL_RWseek :: "'w \<Rightarrow> ptr \<Rightarrow> int \<Rightarrow> int \<Rightarrow> int \<times> 'w"
  SDL_RWtell :: "'w \<Rightarrow> ptr \<Rightarrow> int \<times> 'w"
  SDL_RWsize :: "'w \<Rightarrow> ptr \<Rightarrow> int \<times> 'w"
  SDL_GetError :: "'w \<Rightarrow> string"

definition RW_SEEK_SET :: int where "RW_SEEK_SET = 0"
definition RW_SEEK_CUR :: int where "RW_SEEK_CUR = 1"
definition RW_SEEK_END :: int where "RW_SEEK_END = 2"

subsection \<open>The program state\<close>

record 'w state =
  st_heap :: heap
  st_stdio :: stdio
  st_sdl :: 'w

text \<open>An assignment \<^verbatim>\<open>handle->field = v\<close> through a handle pointer.\<close>

definition assign :: "heap \<Rightarrow> ptr \<Rightarrow> (filehandle_t \<Rightarrow> filehandle_t) \<Rightarrow> fault + heap" where
  "assign hp f upd = bnd (get_handle hp f) (\<lambda>h. put_handle hp f (upd h))"

subsection \<open>The size helper and the dispatch functions\<close>

definition File_StandardSizeImpl :: "stdio \<Rightarrow> ptr \<Rightarrow> fault + (nat \<times> stdio)" where
  "File_StandardSizeImpl st f =
     bnd (ftell st f) (\<lambda>r0.
     let cur = to_size_t r0 in
     bnd (fseek st f 0 SEEK_END) (\<lambda>(_, st1).
     bnd (ftell st1 f) (\<lambda>r1.
     let length = to_size_t r1 in
     bnd (fseek st1 f (to_long cur) SEEK_SET) (\<lambda>(_, st2).
     Inr (length, st2)))))"

definition File_Open ::
  "'w externs \<Rightarrow> 'w state \<Rightarrow> string \<Rightarrow> string \<Rightarrow> fhandletype_t \<Rightarrow> fault + (ptr \<times> 'w state)" where
  "File_Open X s filename filemode type =
     (case calloc (st_heap s) (Handle zeroed_handle) of
        (handle, hp0) \<Rightarrow>
     bnd (assign hp0 handle (\<lambda>h. h\<lparr>h_type := type\<rparr>)) (\<lambda>hp1.
     bnd (if type = FILEHANDLE_STANDARD then
            (case fopen X (st_stdio s) filename filemode of
               (fp, st1) \<Rightarrow>
                 bnd (assign hp1 handle (\<lambda>h. h
                        \<lparr>h_read := Addr_File_StandardRead, h_seek := Addr_File_StandardSeek,
                         h_tell := Addr_File_StandardTell, h_size := Addr_File_StandardSize,
                         h_getchar := Addr_File_StandardGetChar,
                         h_getstring := Addr_File_StandardGetString,
                         h_close := Addr_File_StandardClose, h_error := Addr_File_StandardError,
                         h_eof := Addr_File_StandardEOF, h_file := fp\<rparr>))
                   (\<lambda>hp2. Inr (s\<lparr>st_heap := hp2, st_stdio := st1\<rparr>)))
          else if type = FILEHANDLE_SDL then
            (case SDL_RWFromFile X (st_sdl s) filename filemode of
               (fp, w1) \<Rightarrow>
                 bnd (assign hp1 handle (\<lambda>h. h
                        \<lparr>h_read := Addr_File_SDLRead, h_seek := Addr_File_SDLSeek,
                         h_tell := Addr_File_SDLTell, h_size := Addr_File_SDLSize,
                         h_getchar := Addr_File_SDLGetChar,
                         h_getstring := Addr_File_SDLGetString,
                         h_close := Addr_File_SDLClose, h_error := Addr_File_SDLError,
                         h_eof := Addr_File_SDLEOF, h_file := fp\<rparr>))
                   (\<lambda>hp2. Inr (s\<lparr>st_heap := hp2, st_sdl := w1\<rparr>)))
          else I_Error ''File_Open: unknown file handle type!'') (\<lambda>s1.
     bnd (get_handle (st_heap s1) handle) (\<lambda>h.
     if h_file h = NULL then
       bnd (free (st_heap s1) handle) (\<lambda>hp3. Inr (NULL, s1\<lparr>st_heap := hp3\<rparr>))
     else Inr (handle, s1)))))"

definition File_CheckError :: "'w state \<Rightarrow> ptr \<Rightarrow> fault + int" where
  "File_CheckError s f =
     bnd (get_handle (st_heap s) f) (\<lambda>handle.
     case h_type handle of
       FILEHANDLE_STANDARD \<Rightarrow> ferror (st_stdio s) (h_file handle)
     | FILEHANDLE_SDL \<Rightarrow> Inr 0
     | FILEHANDLE_OTHER _ \<Rightarrow> Inr 0)"

subsection \<open>Standard library file operations\<close>

definition File_StandardSeek :: "'w state \<Rightarrow> ptr \<Rightarrow> int \<Rightarrow> int \<Rightarrow> fault + (int \<times> 'w state)" where
  "File_StandardSeek s f offset origin =
     bnd (get_handle (st_heap s) f) (\<lambda>handle.
     bnd (fseek (st_stdio s) (h_file handle) offset origin) (\<lambda>(r, st1).
     Inr (r, s\<lparr>st_stdio := st1\<rparr>)))"

definition File_StandardTell :: "'w state \<Rightarrow> ptr \<Rightarrow> fault + int" where
  "File_StandardTell s f =
     bnd (get_handle (st_heap s) f) (\<lambda>handle. ftell (st_stdio s) (h_file handle))"

definition File_StandardSize :: "'w state \<Rightarrow> ptr \<Rightarrow> fault + (nat \<times> 'w state)" where
  "File_StandardSize s f =
     bnd (get_handle (st_heap s) f) (\<lambda>handle.
     bnd (File_StandardSizeImpl (st_stdio s) (h_file handle)) (\<lambda>(n, st1).
     Inr (n, s\<lparr>st_stdio := st1\<rparr>)))"

definition File_StandardGetString ::
  "'w state \<Rightarrow> ptr \<Rightarrow> byte list \<Rightarrow> int \<Rightarrow> fault + ((bool \<times> byte list) \<times> 'w state)" where
  "File_StandardGetString s f str num =
     bnd (get_handle (st_heap s) f) (\<lambda>handle.
     bnd (fgets (st_stdio s) str num (h_file handle)) (\<lambda>(r, st1).
     Inr (r, s\<lparr>st_stdio := st1\<rparr>)))"

subsection \<open>\<^verbatim>\<open>SDL_RWops\<close> file operations\<close>

definition File_SDLSetError :: "'w externs \<Rightarrow> 'w state \<Rightarrow> ptr \<Rightarrow> fault + 'w state" where
  "File_SDLSetError X s handle =
     (let errorstring = SDL_GetError X (st_sdl s) in
      bnd (get_handle (st_heap s) handle) (\<lambda>h.
      bnd (if h_lasterror h \<noteq> NULL then free (st_heap s) (h_lasterror h)
           else Inr (st_heap s)) (\<lambda>hp1.
      case calloc hp1 (Chars (length errorstring + 1) []) of
        (p, hp2) \<Rightarrow>
      bnd (assign hp2 handle (\<lambda>h. h\<lparr>h_lasterror := p\<rparr>)) (\<lambda>hp3.
      bnd (get_handle hp3 handle) (\<lambda>h1.
      bnd (strcpy hp3 (h_lasterror h1) errorstring) (\<lambda>hp4.
      Inr (s\<lparr>st_heap := hp4\<rparr>)))))))"

text \<open>
  \<^verbatim>\<open>File_SDLRead(f, ptr, size, count)\<close>: \<open>buf\<close> is the array at \<^verbatim>\<open>ptr\<close>; the result is
  the count returned and the array afterwards.
\<close>

definition File_SDLRead ::
  "'w externs \<Rightarrow> 'w state \<Rightarrow> ptr \<Rightarrow> byte list \<Rightarrow> nat \<Rightarrow> nat \<Rightarrow>
     fault + ((nat \<times> byte list) \<times> 'w state)" where
  "File_SDLRead X s f buf size' count =
     bnd (get_handle (st_heap s) f) (\<lambda>handle.
     case SDL_RWread X (st_sdl s) (h_file handle) size' count of
       ((read, bs), w1) \<Rightarrow>
     bnd (store_bytes buf bs) (\<lambda>buf1.
     bnd (File_SDLSetError X (s\<lparr>st_sdl := w1\<rparr>) f) (\<lambda>s1.
     Inr ((read, buf1), s1))))"

definition File_SDLSeek ::
  "'w externs \<Rightarrow> 'w state \<Rightarrow> ptr \<Rightarrow> int \<Rightarrow> int \<Rightarrow> fault + (int \<times> 'w state)" where
  "File_SDLSeek X s f offset origin =
     bnd (get_handle (st_heap s) f) (\<lambda>handle.
     let type = (if origin = SEEK_CUR then RW_SEEK_CUR
                 else if origin = SEEK_END then RW_SEEK_END
                 else RW_SEEK_SET) in
     case SDL_RWseek X (st_sdl s) (h_file handle) offset type of
       (r, w1) \<Rightarrow>
     let position = to_int r in
     bnd (File_SDLSetError X (s\<lparr>st_sdl := w1\<rparr>) f) (\<lambda>s1.
     Inr (if position = - 1 then - 1 else 0, s1)))"

definition File_SDLTell :: "'w externs \<Rightarrow> 'w state \<Rightarrow> ptr \<Rightarrow> fault + (int \<times> 'w state)" where
  "File_SDLTell X s f =
     bnd (get_handle (st_heap s) f) (\<lambda>handle.
     case SDL_RWtell X (st_sdl s) (h_file handle) of
       (position, w1) \<Rightarrow>
     bnd (File_SDLSetError X (s\<lparr>st_sdl := w1\<rparr>) f) (\<lambda>s1.
     Inr (position, s1)))"

definition File_SDLSize :: "'w externs \<Rightarrow> 'w state \<Rightarrow> ptr \<Rightarrow> fault + (nat \<times> 'w state)" where
  "File_SDLSize X s f =
     bnd (get_handle (st_heap s) f) (\<lambda>handle.
     case SDL_RWsize X (st_sdl s) (h_file handle) of
       (r, w1) \<Rightarrow>
     let sz = to_size_t r in
     bnd (File_SDLSetError X (s\<lparr>st_sdl := w1\<rparr>) f) (\<lambda>s1.
     Inr (sz, s1)))"

text \<open>
  The local \<^verbatim>\<open>char c\<close> of \<^verbatim>\<open>File_SDLGetChar\<close> starts uninitialised (\<open>None\<close>); the
  primitive read stores into it.
\<close>

definition store_char :: "byte option \<Rightarrow> byte list \<Rightarrow> fault + byte option" where
  "store_char c bs =
     (case bs of [] \<Rightarrow> Inr c | [b] \<Rightarrow> Inr (Some b) | _ \<Rightarrow> Inl Undefined_Behaviour)"

definition File_SDLGetChar :: "'w externs \<Rightarrow> 'w state \<Rightarrow> ptr \<Rightarrow> fault + (int \<times> 'w state)" where
  "File_SDLGetChar X s f =
     bnd (get_handle (st_heap s) f) (\<lambda>handle.
     case SDL_RWread X (st_sdl s) (h_file handle) 1 1 of
       ((n, bs), w1) \<Rightarrow>
     bnd (store_char None bs) (\<lambda>c.
     if n = 0 then
       bnd (File_SDLSetError X (s\<lparr>st_sdl := w1\<rparr>) f) (\<lambda>s1. Inr (EOF, s1))
     else (case c of
             None \<Rightarrow> Inl Undefined_Behaviour
           | Some b \<Rightarrow> Inr (sint b, s\<lparr>st_sdl := w1\<rparr>))))"

text \<open>
  \<^verbatim>\<open>File_SDLGetString(f, str, num)\<close>: the flag says whether \<open>str\<close> (rather than the
  null pointer) is returned; the array \<open>str\<close> afterwards comes with it.
\<close>

definition File_SDLGetString ::
  "'w externs \<Rightarrow> 'w state \<Rightarrow> ptr \<Rightarrow> byte list \<Rightarrow> int \<Rightarrow>
     fault + ((bool \<times> byte list) \<times> 'w state)" where
  "File_SDLGetString X s f str num =
     bnd (get_handle (st_heap s) f) (\<lambda>handle.
     case SDL_RWread X (st_sdl s) (h_file handle) 1 (to_size_t (num - 1)) of
       ((n, bs), w1) \<Rightarrow>
     bnd (store_bytes str bs) (\<lambda>str1.
     if n = 0 then
       bnd (File_SDLSetError X (s\<lparr>st_sdl := w1\<rparr>) f) (\<lambda>s1. Inr ((False, str1), s1))
     else
       bnd (store_at str1 (num - 1) 0) (\<lambda>str2.
       Inr ((True, str2), s\<lparr>st_sdl := w1\<rparr>))))"

definition File_SDLError :: "'w state \<Rightarrow> ptr \<Rightarrow> fault + ptr" where
  "File_SDLError s f = bnd (get_handle (st_heap s) f) (\<lambda>handle. Inr (h_lasterror handle))"

definition File_SDLEOF :: "'w externs \<Rightarrow> 'w state \<Rightarrow> ptr \<Rightarrow> fault + (int \<times> 'w state)" where
  "File_SDLEOF X s f =
     bnd (get_handle (st_heap s) f) (\<lambda>handle.
     case SDL_RWsize X (st_sdl s) (h_file handle) of
       (filesize, w1) \<Rightarrow>
     if filesize < 0 then
       bnd (File_SDLSetError X (s\<lparr>st_sdl := w1\<rparr>) f) (\<lambda>s1. Inr (1, s1))
     else
       (case SDL_RWtell X w1 (h_file handle) of
          (position, w2) \<Rightarrow>
            if position = - 1 then Inr (1, s\<lparr>st_sdl := w2\<rparr>)
            else if position \<ge> filesize then Inr (1, s\<lparr>st_sdl := w2\<rparr>)
            else Inr (0, s\<lparr>st_sdl := w2\<rparr>)))"

subsection \<open>Observations used in the statements\<close>

text \<open>The text that \<^verbatim>\<open>File_SDLError\<close> hands out, read from the heap.\<close>

definition LastErrorMessage :: "'w state \<Rightarrow> ptr \<Rightarrow> fault + string option" where
  "LastErrorMessage s f = bnd (File_SDLError s f) (\<lambda>p. c_string (st_heap s) p)"

text \<open>
  A live handle: \<open>f\<close> points to the handle record \<open>h\<close>, and the string the handle
  owns is absent or a live block of its own.
\<close>

definition live_handle :: "'w state \<Rightarrow> ptr \<Rightarrow> filehandle_t \<Rightarrow> bool" where
  "live_handle s f h \<longleftrightarrow>
     get_handle (st_heap s) f = Inr h \<and>
     (h_lasterror h = NULL \<or> (h_lasterror h \<noteq> f \<and> h_lasterror h \<in> live (st_heap s)))"

text \<open>
  The effect of refreshing \<open>lasterror\<close> from state \<open>s\<close> to state \<open>s'\<close>, when the
  primitive call left the library in state \<open>w\<close>: the handle's text is the
  diagnostic text of \<open>w\<close>, the block that held the previous text is released and
  one new block holds the new text, nothing else in the handle changes.
\<close>

definition lasterror_refreshed :: "'w externs \<Rightarrow> 'w state \<Rightarrow> ptr \<Rightarrow> 'w \<Rightarrow> 'w state \<Rightarrow> bool" where
  "lasterror_refreshed X s f w s' \<longleftrightarrow>
     st_sdl s' = w \<and> st_stdio s' = st_stdio s \<and>
     LastErrorMessage s' f = Inr (Some (SDL_GetError X w)) \<and>
     (\<exists>h p. get_handle (st_heap s) f = Inr h \<and>
            get_handle (st_heap s') f = Inr (h\<lparr>h_lasterror := p\<rparr>) \<and>
            p \<noteq> NULL \<and> p \<notin> live (st_heap s) - {h_lasterror h} \<and>
            live (st_heap s') = insert p (live (st_heap s) - ({h_lasterror h} - {NULL})))"

text \<open>
  What a line read into the array \<open>str\<close> with length argument \<open>num\<close> may do to the
  array: \<open>r\<close> is the flag returned with the array afterwards. The array keeps its
  extent, every byte at an index from \<open>num\<close> on is what it was, and when the call
  returns \<open>str\<close> there is a zero byte among the first \<open>num\<close> bytes.
\<close>

definition stays_within :: "byte list \<Rightarrow> int \<Rightarrow> bool \<times> byte list \<Rightarrow> bool" where
  "stays_within str num r \<longleftrightarrow>
     length (snd r) = length str \<and>
     drop (nat num) (snd r) = drop (nat num) str \<and>
     (fst r \<longrightarrow> 0 \<in> set (take (nat num) (snd r)))"

subsection \<open>A reader-seeker over a byte array\<close>

text \<open>
  An instance of the external primitives, to run the program on concrete inputs:
  one stream over a byte array, which like a stream on a file may be positioned
  past its end; opening a named resource fails for every name.
\<close>

record rwops =
  rw_data :: "byte list"
  rw_pos :: nat
  rw_error :: string

definition array_RWread :: "rwops \<Rightarrow> ptr \<Rightarrow> nat \<Rightarrow> nat \<Rightarrow> (nat \<times> byte list) \<times> rwops" where
  "array_RWread w ctx size' maxnum =
     (let k = min maxnum ((length (rw_data w) - rw_pos w) div size') in
      ((k, take (k * size') (drop (rw_pos w) (rw_data w))),
       w\<lparr>rw_pos := rw_pos w + k * size'\<rparr>))"

definition array_RWseek :: "rwops \<Rightarrow> ptr \<Rightarrow> int \<Rightarrow> int \<Rightarrow> int \<times> rwops" where
  "array_RWseek w ctx offset whence =
     (let base = (if whence = RW_SEEK_CUR then int (rw_pos w)
                  else if whence = RW_SEEK_END then int (length (rw_data w))
                  else 0) in
      if base + offset < 0 then (- 1, w\<lparr>rw_error := ''Error seeking in datastream''\<rparr>)
      else (base + offset, w\<lparr>rw_pos := nat (base + offset)\<rparr>))"

definition array_externs :: "rwops externs" where
  "array_externs =
     \<lparr>fopen = (\<lambda>st filename filemode. (NULL, st)),
      SDL_RWFromFile = (\<lambda>w filename filemode.
         (NULL, w\<lparr>rw_error := ''Couldn't open '' @ filename\<rparr>)),
      SDL_RWread = array_RWread,
      SDL_RWseek = array_RWseek,
      SDL_RWtell = (\<lambda>w ctx. (int (rw_pos w), w)),
      SDL_RWsize = (\<lambda>w ctx. (int (length (rw_data w)), w)),
      SDL_GetError = rw_error\<rparr>"

text \<open>
  The same primitives for a stream whose size is not known, and for one whose
  position cannot be determined: the size primitive, respectively the tell
  primitive, reports failure.
\<close>

definition unsized_externs :: "rwops externs" where
  "unsized_externs =
     array_externs\<lparr>SDL_RWsize := (\<lambda>w ctx. (- 1, w\<lparr>rw_error := ''Unknown size''\<rparr>))\<rparr>"

definition untold_externs :: "rwops externs" where
  "untold_externs =
     array_externs\<lparr>SDL_RWtell := (\<lambda>w ctx. (- 1, w\<lparr>rw_error := ''Unknown position''\<rparr>))\<rparr>"

text \<open>
  A state with two handles as \<^verbatim>\<open>File_Open\<close> builds them: at address 1 a handle of
  kind \<^verbatim>\<open>FILEHANDLE_SDL\<close>, at address 2 one of kind \<^verbatim>\<open>FILEHANDLE_STANDARD\<close>, each on
  a resource with the bytes \<open>bs\<close> at position \<open>pos\<close>.
\<close>

definition sdl_handle :: filehandle_t where
  "sdl_handle =
     \<lparr>h_type = FILEHANDLE_SDL, h_file = 1,
      h_read = Addr_File_SDLRead, h_seek = Addr_File_SDLSeek, h_tell = Addr_File_SDLTell,
      h_size = Addr_File_SDLSize, h_getchar = Addr_File_SDLGetChar,
      h_getstring = Addr_File_SDLGetString, h_close = Addr_File_SDLClose,
      h_error = Addr_File_SDLError, h_eof = Addr_File_SDLEOF, h_lasterror = NULL\<rparr>"

definition standard_handle :: filehandle_t where
  "standard_handle =
     \<lparr>h_type = FILEHANDLE_STANDARD, h_file = 1,
      h_read = Addr_File_StandardRead, h_seek = Addr_File_StandardSeek,
      h_tell = Addr_File_StandardTell, h_size = Addr_File_StandardSize,
      h_getchar = Addr_File_StandardGetChar, h_getstring = Addr_File_StandardGetString,
      h_close = Addr_File_StandardClose, h_error = Addr_File_StandardError,
      h_eof = Addr_File_StandardEOF, h_lasterror = NULL\<rparr>"

definition example_state :: "byte list \<Rightarrow> nat \<Rightarrow> rwops state" where
  "example_state bs pos =
     \<lparr>st_heap = [(1, Handle sdl_handle), (2, Handle standard_handle)],
      st_stdio = [(1, \<lparr>f_data = bs, f_pos = pos, f_eof = False, f_err = False\<rparr>)],
      st_sdl = \<lparr>rw_data = bs, rw_pos = pos, rw_error = []\<rparr>\<rparr>"

text \<open>The value a call returns, without the state it leaves.\<close>

definition returned :: "fault + ('a \<times> 's) \<Rightarrow> fault + 'a" where
  "returned m = (case m of Inl e \<Rightarrow> Inl e | Inr (r, s) \<Rightarrow> Inr r)"

definition INT_MAX :: int where
  "INT_MAX = 2 ^ 31 - 1"

section \<open>Auxiliary facts\<close>

subsection \<open>Conversions\<close>

lemma to_size_t_id: "0 \<le> x \<Longrightarrow> x < 2 ^ 64 \<Longrightarrow> to_size_t x = nat x"
  by (simp add: to_size_t_def unsigned_of_int take_bit_int_eq_self)

lemma to_long_id: "n < 2 ^ 63 \<Longrightarrow> to_long n = int n"
  by (simp add: to_long_def signed_of_nat signed_take_bit_int_eq_self)

lemma to_int_id: "- (2 ^ 31) \<le> x \<Longrightarrow> x < 2 ^ 31 \<Longrightarrow> to_int x = x"
  by (simp add: to_int_def signed_of_int signed_take_bit_int_eq_self)

subsection \<open>Heap\<close>

lemma bnd_simps [simp]: "bnd (Inr x) k = k x" "bnd (Inl e) k = Inl e"
  by (simp_all add: bnd_def)

lemma fold_max_ge: "(a::nat) \<le> fold max xs a"
  by (induction xs arbitrary: a) (auto intro: order_trans [OF max.cobounded2])

lemma fold_max_mem: "x \<in> set xs \<Longrightarrow> (x::nat) \<le> fold max xs a"
proof (induction xs arbitrary: a)
  case Nil
  then show ?case by simp
next
  case (Cons y ys)
  show ?case
  proof (cases "x = y")
    case True
    have "y \<le> max y a" by simp
    also have "\<dots> \<le> fold max ys (max y a)" by (rule fold_max_ge)
    finally show ?thesis using True by simp
  next
    case False
    with Cons.prems have "x \<in> set ys" by simp
    then show ?thesis using Cons.IH by simp
  qed
qed

lemma fresh_not_live: "fresh hp \<notin> live hp"
proof
  assume "fresh hp \<in> live hp"
  then have "fresh hp \<in> set (map fst hp)" by (simp add: live_def)
  then have "fresh hp \<le> fold max (map fst hp) 0" by (rule fold_max_mem)
  then show False by (simp add: fresh_def)
qed

lemma fresh_not_null: "fresh hp \<noteq> NULL"
  by (simp add: fresh_def)

lemma map_of_fresh: "map_of hp (fresh hp) = None"
  using fresh_not_live [of hp] by (simp add: live_def map_of_eq_None_iff)

lemma live_iff: "p \<in> live hp \<longleftrightarrow> map_of hp p \<noteq> None"
  by (simp add: live_def map_of_eq_None_iff)

lemma live_delete: "live (AList.delete p hp) = live hp - {p}"
  by (induction hp) (auto simp: live_def)

lemma live_update: "live (AList.update p c hp) = insert p (live hp)"
  by (simp add: live_def dom_update)

lemma live_Cons: "live ((p, c) # hp) = insert p (live hp)"
  by (simp add: live_def)

lemma free_calloc: "free (snd (calloc hp c)) (fst (calloc hp c)) = Inr hp"
  using fresh_not_live [of hp]
  by (simp add: free_def calloc_def fresh_not_null live_def delete_id)

lemma get_handle_iff: "get_handle hp f = Inr h \<longleftrightarrow> f \<noteq> NULL \<and> map_of hp f = Some (Handle h)"
  by (auto simp: get_handle_def split: option.splits cell.splits)

lemma assign_live:
  assumes "f \<noteq> NULL" "map_of hp f = Some (Handle h)"
  shows "assign hp f upd = Inr (AList.update f (Handle (upd h)) hp)"
  using assms by (simp add: assign_def get_handle_def put_handle_def)

lemma File_SDLSetError_effect:
  assumes "live_handle s f h"
  shows "\<exists>s'. File_SDLSetError X s f = Inr s' \<and> lasterror_refreshed X s f (st_sdl s) s'"
proof -
  let ?hp = "st_heap s" and ?e = "SDL_GetError X (st_sdl s)"
  let ?old = "h_lasterror h"
  from assms have gh: "get_handle ?hp f = Inr h"
    by (simp add: live_handle_def)
  then have f_nz: "f \<noteq> NULL" and hf: "map_of ?hp f = Some (Handle h)"
    by (simp_all add: get_handle_iff)
  from assms have old: "?old = NULL \<or> (?old \<noteq> f \<and> ?old \<in> live ?hp)"
    by (simp add: live_handle_def)
  define hp1 where "hp1 = (if ?old \<noteq> NULL then AList.delete ?old ?hp else ?hp)"
  have free1: "(if ?old \<noteq> NULL then free ?hp ?old else Inr ?hp) = Inr hp1"
    using old by (auto simp: free_def hp1_def live_iff)
  have hf1: "map_of hp1 f = Some (Handle h)"
    using old hf f_nz by (auto simp: hp1_def delete_conv)
  have live1: "live hp1 = live ?hp - ({?old} - {NULL})"
    by (auto simp: hp1_def live_delete)
  define p where "p = fresh hp1"
  define c where "c = Chars (length ?e + 1) []"
  define hp2 where "hp2 = (p, c) # hp1"
  have p_nz: "p \<noteq> NULL" by (simp add: p_def fresh_not_null)
  have p_new: "p \<notin> live hp1" by (simp add: p_def fresh_not_live)
  have pf: "p \<noteq> f" using p_new hf1 by (auto simp: live_iff)
  have alloc: "calloc hp1 c = (p, hp2)" by (simp add: calloc_def p_def hp2_def)
  have hf2: "map_of hp2 f = Some (Handle h)" using pf hf1 by (simp add: hp2_def)
  define hp3 where "hp3 = AList.update f (Handle (h\<lparr>h_lasterror := p\<rparr>)) hp2"
  have asg: "assign hp2 f (\<lambda>h. h\<lparr>h_lasterror := p\<rparr>) = Inr hp3"
    using assign_live [OF f_nz hf2] by (simp add: hp3_def)
  have gh3: "get_handle hp3 f = Inr (h\<lparr>h_lasterror := p\<rparr>)"
    using f_nz by (simp add: get_handle_iff hp3_def update_conv')
  have mp3: "map_of hp3 p = Some c" using pf by (simp add: hp3_def hp2_def update_conv')
  define hp4 where "hp4 = AList.update p (Chars (length ?e + 1) ?e) hp3"
  have cpy: "strcpy hp3 p ?e = Inr hp4"
    using mp3 p_nz by (simp add: strcpy_def c_def hp4_def)
  define s' where "s' = s\<lparr>st_heap := hp4\<rparr>"
  have run: "File_SDLSetError X s f = Inr s'"
    unfolding File_SDLSetError_def Let_def
    using gh free1 alloc asg gh3 cpy by (simp add: c_def s'_def)
  have gh4: "get_handle hp4 f = Inr (h\<lparr>h_lasterror := p\<rparr>)"
    using gh3 pf by (simp add: get_handle_iff hp4_def update_conv')
  have msg: "LastErrorMessage s' f = Inr (Some ?e)"
    using gh4 p_nz by (simp add: LastErrorMessage_def File_SDLError_def s'_def c_string_def
        hp4_def update_conv')
  have live4: "live hp4 = insert p (live ?hp - ({?old} - {NULL}))"
    using hf1 by (auto simp: hp4_def hp3_def hp2_def live_update live_Cons live1 [symmetric] live_iff)
  have p_out: "p \<notin> live ?hp - {?old}"
    using p_new live1 by auto
  have "lasterror_refreshed X s f (st_sdl s) s'"
    unfolding lasterror_refreshed_def
    using msg gh gh4 p_nz p_out live4 by (auto simp: s'_def)
  with run show ?thesis by blast
qed

lemma calloc_handle_assign:
  "calloc hp (Handle h0) = (p, hp0) \<Longrightarrow>
   assign hp0 p upd = Inr ((p, Handle (upd h0)) # hp) \<and> p \<noteq> NULL \<and> p \<notin> live hp"
  using fresh_not_null [of hp] fresh_not_live [of hp]
  by (auto simp: calloc_def assign_def get_handle_def put_handle_def)

lemma assign_head:
  "p \<noteq> NULL \<Longrightarrow> assign ((p, Handle h0) # hp) p upd = Inr ((p, Handle (upd h0)) # hp)"
  by (simp add: assign_def get_handle_def put_handle_def)

lemma get_handle_head: "p \<noteq> NULL \<Longrightarrow> get_handle ((p, Handle h0) # hp) p = Inr h0"
  by (simp add: get_handle_def)

lemma free_head: "p \<noteq> NULL \<Longrightarrow> p \<notin> live hp \<Longrightarrow> free ((p, c) # hp) p = Inr hp"
  by (simp add: free_def live_def delete_id)

subsection \<open>Refreshing the diagnostic text\<close>

lemma live_handle_sdl_update: "live_handle (s\<lparr>st_sdl := w\<rparr>) f h = live_handle s f h"
  by (simp add: live_handle_def)

lemma File_SDLSetError_after_primitive:
  assumes "live_handle s f h"
  shows "\<exists>s'. File_SDLSetError X (s\<lparr>st_sdl := w\<rparr>) f = Inr s' \<and> lasterror_refreshed X s f w s'"
proof -
  from assms have "live_handle (s\<lparr>st_sdl := w\<rparr>) f h"
    by (simp add: live_handle_sdl_update)
  from File_SDLSetError_effect [OF this, of X]
  obtain s' where run: "File_SDLSetError X (s\<lparr>st_sdl := w\<rparr>) f = Inr s'"
    and r: "lasterror_refreshed X (s\<lparr>st_sdl := w\<rparr>) f (st_sdl (s\<lparr>st_sdl := w\<rparr>)) s'"
    by blast
  from r have "lasterror_refreshed X s f w s'"
    by (simp add: lasterror_refreshed_def)
  with run show ?thesis by blast
qed

subsection \<open>The example state\<close>

lemma example_live_handle: "live_handle (example_state bs pos) 1 sdl_handle"
  by (simp add: live_handle_def example_state_def get_handle_def sdl_handle_def)

lemma example_get_handle_1: "get_handle (st_heap (example_state bs pos)) 1 = Inr sdl_handle"
  by (simp add: example_state_def get_handle_def)

lemma example_get_handle_2: "get_handle (st_heap (example_state bs pos)) 2 = Inr standard_handle"
  by (simp add: example_state_def get_handle_def)

lemma example_read_255:
  "SDL_RWread array_externs (st_sdl (example_state [255, 66] 0)) (h_file sdl_handle) 1 1 =
     ((1, [255]), \<lparr>rw_data = [255, 66], rw_pos = 1, rw_error = []\<rparr>)"
  by (simp add: array_externs_def array_RWread_def example_state_def)

section \<open>Opening a handle\<close>

text \<open>
  Claim C6. For every path and mode, \<^verbatim>\<open>File_Open\<close> with a kind that is neither
  \<^verbatim>\<open>FILEHANDLE_STANDARD\<close> nor \<^verbatim>\<open>FILEHANDLE_SDL\<close> ends in the fatal error raised by
  \<^verbatim>\<open>I_Error\<close>: the call yields no value, neither a handle nor the null pointer.
\<close>

theorem File_Open_unknown_kind_is_fatal:
  assumes "type \<noteq> FILEHANDLE_STANDARD" and "type \<noteq> FILEHANDLE_SDL"
  shows "File_Open X s filename filemode type =
           Inl (Fatal ''File_Open: unknown file handle type!'')"
proof -
  obtain p hp0 where c: "calloc (st_heap s) (Handle zeroed_handle) = (p, hp0)"
    by (cases "calloc (st_heap s) (Handle zeroed_handle)")
  from calloc_handle_assign [OF c]
  have "assign hp0 p (\<lambda>h. h\<lparr>h_type := type\<rparr>) =
          Inr ((p, Handle (zeroed_handle\<lparr>h_type := type\<rparr>)) # st_heap s)"
    by simp
  with c assms show ?thesis
    by (simp add: File_Open_def I_Error_def)
qed

theorem File_Open_unknown_kind_is_fatal_witness:
  "FILEHANDLE_OTHER 7 \<noteq> FILEHANDLE_STANDARD \<and> FILEHANDLE_OTHER 7 \<noteq> FILEHANDLE_SDL \<and>
   File_Open array_externs (example_state [65, 66] 0) ''t.bin'' ''rb'' (FILEHANDLE_OTHER 7) =
     Inl (Fatal ''File_Open: unknown file handle type!'')"
  using File_Open_unknown_kind_is_fatal [of "FILEHANDLE_OTHER 7" array_externs
      "example_state [65, 66] 0" "''t.bin''" "''rb''"]
  by simp

text \<open>
  Claim C7. For each of the two known kinds, when the backend open of the named
  resource returns the null pointer, \<^verbatim>\<open>File_Open\<close> returns the null pointer and the
  heap is what it was before the call: the handle record it had allocated is
  released, and no allocation of the failed call remains.
\<close>

theorem File_Open_failure_releases_handle:
  assumes "type = FILEHANDLE_STANDARD \<and> fst (fopen X (st_stdio s) filename filemode) = NULL
           \<or> type = FILEHANDLE_SDL \<and> fst (SDL_RWFromFile X (st_sdl s) filename filemode) = NULL"
  shows "\<exists>s'. File_Open X s filename filemode type = Inr (NULL, s') \<and> st_heap s' = st_heap s"
proof -
  obtain p hp0 where c: "calloc (st_heap s) (Handle zeroed_handle) = (p, hp0)"
    by (cases "calloc (st_heap s) (Handle zeroed_handle)")
  note a = calloc_handle_assign [OF c]
  from a have p: "p \<noteq> NULL" "p \<notin> live (st_heap s)" by simp_all
  from a have a1: "assign hp0 p (\<lambda>h. h\<lparr>h_type := type\<rparr>) =
          Inr ((p, Handle (zeroed_handle\<lparr>h_type := type\<rparr>)) # st_heap s)"
    by simp
  from assms show ?thesis
  proof
    assume std: "type = FILEHANDLE_STANDARD \<and> fst (fopen X (st_stdio s) filename filemode) = NULL"
    obtain st1 where "fopen X (st_stdio s) filename filemode = (NULL, st1)"
      using std by (cases "fopen X (st_stdio s) filename filemode") simp
    with std c a1 p show ?thesis
      by (simp add: File_Open_def assign_head get_handle_head free_head)
  next
    assume sdl: "type = FILEHANDLE_SDL \<and> fst (SDL_RWFromFile X (st_sdl s) filename filemode) = NULL"
    obtain w1 where "SDL_RWFromFile X (st_sdl s) filename filemode = (NULL, w1)"
      using sdl by (cases "SDL_RWFromFile X (st_sdl s) filename filemode") simp
    with sdl c a1 p show ?thesis
      by (simp add: File_Open_def assign_head get_handle_head free_head)
  qed
qed

theorem File_Open_failure_releases_handle_witness:
  "fst (fopen array_externs (st_stdio (example_state [65, 66] 0)) ''missing.wad'' ''rb'') = NULL \<and>
   fst (SDL_RWFromFile array_externs (st_sdl (example_state [65, 66] 0)) ''missing.wad'' ''rb'')
     = NULL \<and>
   (\<exists>s'. File_Open array_externs (example_state [65, 66] 0) ''missing.wad'' ''rb''
            FILEHANDLE_STANDARD = Inr (NULL, s') \<and>
          st_heap s' = st_heap (example_state [65, 66] 0)) \<and>
   (\<exists>s'. File_Open array_externs (example_state [65, 66] 0) ''missing.wad'' ''rb'' FILEHANDLE_SDL
            = Inr (NULL, s') \<and>
          st_heap s' = st_heap (example_state [65, 66] 0))"
proof -
  have h1: "fst (fopen array_externs (st_stdio (example_state [65, 66] 0))
                  ''missing.wad'' ''rb'') = NULL"
    by (simp add: array_externs_def)
  have h2: "fst (SDL_RWFromFile array_externs (st_sdl (example_state [65, 66] 0))
                  ''missing.wad'' ''rb'') = NULL"
    by (simp add: array_externs_def)
  from h1 File_Open_failure_releases_handle [of FILEHANDLE_STANDARD array_externs
      "example_state [65, 66] 0" "''missing.wad''" "''rb''"]
  have c1: "\<exists>s'. File_Open array_externs (example_state [65, 66] 0) ''missing.wad'' ''rb''
            FILEHANDLE_STANDARD = Inr (NULL, s') \<and>
          st_heap s' = st_heap (example_state [65, 66] 0)"
    by simp
  from h2 File_Open_failure_releases_handle [of FILEHANDLE_SDL array_externs
      "example_state [65, 66] 0" "''missing.wad''" "''rb''"]
  have c2: "\<exists>s'. File_Open array_externs (example_state [65, 66] 0) ''missing.wad'' ''rb''
            FILEHANDLE_SDL = Inr (NULL, s') \<and>
          st_heap s' = st_heap (example_state [65, 66] 0)"
    by simp
  from h1 h2 c1 c2 show ?thesis by blast
qed

section \<open>Error query\<close>

text \<open>
  Claim C4. For a live handle, \<^verbatim>\<open>File_CheckError\<close> returns what \<^verbatim>\<open>ferror\<close> says about
  the resource (its native error indicator) when the kind is Standard, and 0
  ("no error") when the kind is AbstractStream, whatever the state is, that is
  whatever earlier operations on the handle did.
\<close>

theorem File_CheckError_by_kind:
  assumes "get_handle (st_heap s) f = Inr h"
  shows "(h_type h = FILEHANDLE_STANDARD \<longrightarrow>
            File_CheckError s f = ferror (st_stdio s) (h_file h) \<and>
            (\<forall>F. get_FILE (st_stdio s) (h_file h) = Inr F \<longrightarrow>
                 File_CheckError s f = Inr (if f_err F then 1 else 0))) \<and>
         (h_type h = FILEHANDLE_SDL \<longrightarrow> File_CheckError s f = Inr 0)"
  using assms by (simp add: File_CheckError_def ferror_def ferror_FILE_def)

theorem File_CheckError_by_kind_witness:
  "get_handle (st_heap (example_state [65, 66] 0)) 2 = Inr standard_handle \<and>
   h_type standard_handle = FILEHANDLE_STANDARD \<and>
   get_FILE (st_stdio (example_state [65, 66] 0)) (h_file standard_handle) =
     Inr \<lparr>f_data = [65, 66], f_pos = 0, f_eof = False, f_err = False\<rparr> \<and>
   File_CheckError (example_state [65, 66] 0) 2 = Inr 0 \<and>
   get_handle (st_heap (example_state [65, 66] 0)) 1 = Inr sdl_handle \<and>
   h_type sdl_handle = FILEHANDLE_SDL \<and>
   File_CheckError (example_state [65, 66] 0) 1 = Inr 0"
proof -
  have F: "get_FILE (st_stdio (example_state [65, 66] 0)) (h_file standard_handle) =
     Inr \<lparr>f_data = [65, 66], f_pos = 0, f_eof = False, f_err = False\<rparr>"
    by (simp add: example_state_def get_FILE_def standard_handle_def)
  have t2: "h_type standard_handle = FILEHANDLE_STANDARD"
    by (simp add: standard_handle_def)
  have t1: "h_type sdl_handle = FILEHANDLE_SDL"
    by (simp add: sdl_handle_def)
  from File_CheckError_by_kind [OF example_get_handle_2, of "[65, 66]" 0] t2 F
  have c2: "File_CheckError (example_state [65, 66] 0) 2 = Inr 0"
    by auto
  from File_CheckError_by_kind [OF example_get_handle_1, of "[65, 66]" 0] t1
  have c1: "File_CheckError (example_state [65, 66] 0) 1 = Inr 0"
    by simp
  from F t2 t1 c2 c1 example_get_handle_1 example_get_handle_2 show ?thesis
    by blast
qed

section \<open>Reading a character from an abstract stream\<close>

text \<open>
  Claim C8. When the primitive read succeeds (one object read) and the byte read
  is 0xFF, \<^verbatim>\<open>File_SDLGetChar\<close> converts it through the signed \<^verbatim>\<open>char\<close> and returns
  \<open>- 1\<close>, the end-of-stream sentinel \<^verbatim>\<open>EOF\<close>; \<open>lasterror\<close> is left alone. So the
  sentinel does not imply that the stream was exhausted.
\<close>

theorem File_SDLGetChar_byte_255_is_EOF:
  assumes "get_handle (st_heap s) f = Inr h"
    and "SDL_RWread X (st_sdl s) (h_file h) 1 1 = ((1, [255]), w)"
  shows "File_SDLGetChar X s f = Inr (EOF, s\<lparr>st_sdl := w\<rparr>)"
  using assms by (simp add: File_SDLGetChar_def store_char_def EOF_def)

theorem File_SDLGetChar_byte_255_is_EOF_witness:
  "get_handle (st_heap (example_state [255, 66] 0)) 1 = Inr sdl_handle \<and>
   SDL_RWread array_externs (st_sdl (example_state [255, 66] 0)) (h_file sdl_handle) 1 1 =
     ((1, [255]), \<lparr>rw_data = [255, 66], rw_pos = 1, rw_error = []\<rparr>) \<and>
   File_SDLGetChar array_externs (example_state [255, 66] 0) 1 =
     Inr (EOF, (example_state [255, 66] 0)
                 \<lparr>st_sdl := \<lparr>rw_data = [255, 66], rw_pos = 1, rw_error = []\<rparr>\<rparr>)"
  using File_SDLGetChar_byte_255_is_EOF [OF example_get_handle_1 example_read_255]
    example_get_handle_1 [of "[255, 66]" 0] example_read_255
  by blast

section \<open>End of an abstract stream\<close>

text \<open>
  Claim C2. For a live handle on an abstract stream, \<^verbatim>\<open>File_SDLEOF\<close> returns 0 (false)
  while the position given by the tell primitive is strictly less than the size
  given by the size primitive, 1 (true) once the position is at least the size,
  and 1 whenever the size primitive fails (negative result) or the tell primitive
  fails (result \<open>- 1\<close>).
\<close>

theorem File_SDLEOF_compares_position_with_size:
  assumes "live_handle s f h"
    and "SDL_RWsize X (st_sdl s) (h_file h) = (filesize, w1)"
    and "SDL_RWtell X w1 (h_file h) = (position, w2)"
  shows "\<exists>r s'. File_SDLEOF X s f = Inr (r, s') \<and>
           (0 \<le> filesize \<and> position \<noteq> - 1 \<and> position < filesize \<longrightarrow> r = 0) \<and>
           (filesize \<le> position \<longrightarrow> r = 1) \<and>
           (filesize < 0 \<longrightarrow> r = 1) \<and>
           (position = - 1 \<longrightarrow> r = 1)"
proof -
  from assms(1) have gh: "get_handle (st_heap s) f = Inr h"
    by (simp add: live_handle_def)
  show ?thesis
  proof (cases "filesize < 0")
    case True
    from File_SDLSetError_after_primitive [OF assms(1), of X w1]
    obtain s' where "File_SDLSetError X (s\<lparr>st_sdl := w1\<rparr>) f = Inr s'" by blast
    with True gh assms(2) show ?thesis
      by (simp add: File_SDLEOF_def)
  next
    case False
    with gh assms(2,3) show ?thesis
      by (simp add: File_SDLEOF_def)
  qed
qed

theorem File_SDLEOF_compares_position_with_size_witness:
  "live_handle (example_state [65, 66] 1) 1 sdl_handle \<and>
   live_handle (example_state [65, 66] 2) 1 sdl_handle \<and>
   returned (File_SDLEOF array_externs (example_state [65, 66] 1) 1) = Inr 0 \<and>
   returned (File_SDLEOF array_externs (example_state [65, 66] 2) 1) = Inr 1 \<and>
   returned (File_SDLEOF unsized_externs (example_state [65, 66] 1) 1) = Inr 1 \<and>
   returned (File_SDLEOF untold_externs (example_state [65, 66] 1) 1) = Inr 1"
proof -
  let ?s1 = "example_state [65, 66] 1" and ?s2 = "example_state [65, 66] 2"
  have sz1: "SDL_RWsize array_externs (st_sdl ?s1) (h_file sdl_handle) = (2, st_sdl ?s1)"
    by (simp add: array_externs_def example_state_def)
  have tl1: "SDL_RWtell array_externs (st_sdl ?s1) (h_file sdl_handle) = (1, st_sdl ?s1)"
    by (simp add: array_externs_def example_state_def)
  from File_SDLEOF_compares_position_with_size [OF example_live_handle sz1 tl1]
  have c1: "returned (File_SDLEOF array_externs ?s1 1) = Inr 0"
    by (auto simp: returned_def)
  have sz2: "SDL_RWsize array_externs (st_sdl ?s2) (h_file sdl_handle) = (2, st_sdl ?s2)"
    by (simp add: array_externs_def example_state_def)
  have tl2: "SDL_RWtell array_externs (st_sdl ?s2) (h_file sdl_handle) = (2, st_sdl ?s2)"
    by (simp add: array_externs_def example_state_def)
  from File_SDLEOF_compares_position_with_size [OF example_live_handle sz2 tl2]
  have c2: "returned (File_SDLEOF array_externs ?s2 1) = Inr 1"
    by (auto simp: returned_def)
  have sz3: "SDL_RWsize unsized_externs (st_sdl ?s1) (h_file sdl_handle) =
               (- 1, \<lparr>rw_data = [65, 66], rw_pos = 1, rw_error = ''Unknown size''\<rparr>)"
    by (simp add: unsized_externs_def array_externs_def example_state_def)
  have tl3: "SDL_RWtell unsized_externs
               \<lparr>rw_data = [65, 66], rw_pos = 1, rw_error = ''Unknown size''\<rparr> (h_file sdl_handle) =
               (1, \<lparr>rw_data = [65, 66], rw_pos = 1, rw_error = ''Unknown size''\<rparr>)"
    by (simp add: unsized_externs_def array_externs_def)
  from File_SDLEOF_compares_position_with_size [OF example_live_handle sz3 tl3]
  have c3: "returned (File_SDLEOF unsized_externs ?s1 1) = Inr 1"
    by (auto simp: returned_def)
  have sz4: "SDL_RWsize untold_externs (st_sdl ?s1) (h_file sdl_handle) = (2, st_sdl ?s1)"
    by (simp add: untold_externs_def array_externs_def example_state_def)
  have tl4: "SDL_RWtell untold_externs (st_sdl ?s1) (h_file sdl_handle) =
               (- 1, \<lparr>rw_data = [65, 66], rw_pos = 1, rw_error = ''Unknown position''\<rparr>)"
    by (simp add: untold_externs_def array_externs_def example_state_def)
  from File_SDLEOF_compares_position_with_size [OF example_live_handle sz4 tl4]
  have c4: "returned (File_SDLEOF untold_externs ?s1 1) = Inr 1"
    by (auto simp: returned_def)
  from c1 c2 c3 c4 example_live_handle [of "[65, 66]" 1] example_live_handle [of "[65, 66]" 2]
  show ?thesis by blast
qed

section \<open>The cached diagnostic text\<close>

text \<open>
  Claim C3. For a live handle on an abstract stream, each of \<^verbatim>\<open>File_SDLRead\<close>,
  \<^verbatim>\<open>File_SDLSeek\<close>, \<^verbatim>\<open>File_SDLTell\<close> and \<^verbatim>\<open>File_SDLSize\<close> ends by storing the
  library's diagnostic text, as it is after the primitive call, in \<open>lasterror\<close>,
  releasing the block that held the previous text; this happens for every result
  of the primitive, success or failure.
\<close>

theorem lasterror_refreshed_by_every_call:
  assumes "live_handle s f h"
  shows
    "(\<forall>n bs w. SDL_RWread X (st_sdl s) (h_file h) size' count = ((n, bs), w) \<and>
                length bs \<le> length buf \<longrightarrow>
        (\<exists>buf' s'. File_SDLRead X s f buf size' count = Inr ((n, buf'), s') \<and>
                   lasterror_refreshed X s f w s')) \<and>
     (\<forall>r w. SDL_RWseek X (st_sdl s) (h_file h) offset
               (if origin = SEEK_CUR then RW_SEEK_CUR
                else if origin = SEEK_END then RW_SEEK_END else RW_SEEK_SET) = (r, w) \<longrightarrow>
        (\<exists>r' s'. File_SDLSeek X s f offset origin = Inr (r', s') \<and>
                  lasterror_refreshed X s f w s')) \<and>
     (\<forall>r w. SDL_RWtell X (st_sdl s) (h_file h) = (r, w) \<longrightarrow>
        (\<exists>s'. File_SDLTell X s f = Inr (r, s') \<and> lasterror_refreshed X s f w s')) \<and>
     (\<forall>r w. SDL_RWsize X (st_sdl s) (h_file h) = (r, w) \<longrightarrow>
        (\<exists>s'. File_SDLSize X s f = Inr (to_size_t r, s') \<and> lasterror_refreshed X s f w s'))"
proof -
  from assms have gh: "get_handle (st_heap s) f = Inr h"
    by (simp add: live_handle_def)
  note refresh = File_SDLSetError_after_primitive [OF assms, of X]
  have rd: "\<exists>buf' s'. File_SDLRead X s f buf size' count = Inr ((n, buf'), s') \<and>
                   lasterror_refreshed X s f w s'"
    if "SDL_RWread X (st_sdl s) (h_file h) size' count = ((n, bs), w)"
      and "length bs \<le> length buf" for n bs w
    using that gh refresh [of w] by (auto simp: File_SDLRead_def store_bytes_def)
  have sk: "\<exists>r' s'. File_SDLSeek X s f offset origin = Inr (r', s') \<and>
                  lasterror_refreshed X s f w s'"
    if "SDL_RWseek X (st_sdl s) (h_file h) offset
               (if origin = SEEK_CUR then RW_SEEK_CUR
                else if origin = SEEK_END then RW_SEEK_END else RW_SEEK_SET) = (r, w)" for r w
    using that gh refresh [of w] by (auto simp: File_SDLSeek_def Let_def)
  have tl: "\<exists>s'. File_SDLTell X s f = Inr (r, s') \<and> lasterror_refreshed X s f w s'"
    if "SDL_RWtell X (st_sdl s) (h_file h) = (r, w)" for r w
    using that gh refresh [of w] by (auto simp: File_SDLTell_def)
  have sz: "\<exists>s'. File_SDLSize X s f = Inr (to_size_t r, s') \<and> lasterror_refreshed X s f w s'"
    if "SDL_RWsize X (st_sdl s) (h_file h) = (r, w)" for r w
    using that gh refresh [of w] by (auto simp: File_SDLSize_def Let_def)
  from rd sk tl sz show ?thesis by blast
qed

theorem lasterror_refreshed_by_every_call_witness:
  "live_handle (example_state [65, 66] 0) 1 sdl_handle \<and>
   (\<exists>buf' s'. File_SDLRead array_externs (example_state [65, 66] 0) 1 [0, 0, 0] 1 3 =
                 Inr ((2, buf'), s') \<and>
               lasterror_refreshed array_externs (example_state [65, 66] 0) 1
                 \<lparr>rw_data = [65, 66], rw_pos = 2, rw_error = []\<rparr> s') \<and>
   (\<exists>r' s'. File_SDLSeek array_externs (example_state [65, 66] 0) 1 (- 1) SEEK_SET =
                Inr (r', s') \<and>
              lasterror_refreshed array_externs (example_state [65, 66] 0) 1
                \<lparr>rw_data = [65, 66], rw_pos = 0, rw_error = ''Error seeking in datastream''\<rparr> s' \<and>
              LastErrorMessage s' 1 = Inr (Some ''Error seeking in datastream'')) \<and>
   (\<exists>s'. File_SDLTell array_externs (example_state [65, 66] 0) 1 = Inr (0, s') \<and>
          lasterror_refreshed array_externs (example_state [65, 66] 0) 1
            \<lparr>rw_data = [65, 66], rw_pos = 0, rw_error = []\<rparr> s') \<and>
   (\<exists>s'. File_SDLSize array_externs (example_state [65, 66] 0) 1 = Inr (2, s') \<and>
          lasterror_refreshed array_externs (example_state [65, 66] 0) 1
            \<lparr>rw_data = [65, 66], rw_pos = 0, rw_error = []\<rparr> s')"
proof -
  let ?s = "example_state [65, 66] 0"
  note all = lasterror_refreshed_by_every_call [OF example_live_handle [of "[65, 66]" 0],
      where X = array_externs and size' = 1 and count = 3 and buf = "[0, 0, 0]"
        and offset = "- 1" and origin = SEEK_SET]
  have rd: "SDL_RWread array_externs (st_sdl ?s) (h_file sdl_handle) 1 3 =
              ((2, [65, 66]), \<lparr>rw_data = [65, 66], rw_pos = 2, rw_error = []\<rparr>)"
    by (simp add: array_externs_def array_RWread_def example_state_def)
  have sk: "SDL_RWseek array_externs (st_sdl ?s) (h_file sdl_handle) (- 1)
              (if SEEK_SET = SEEK_CUR then RW_SEEK_CUR
               else if SEEK_SET = SEEK_END then RW_SEEK_END else RW_SEEK_SET) =
              (- 1, \<lparr>rw_data = [65, 66], rw_pos = 0, rw_error = ''Error seeking in datastream''\<rparr>)"
    by (simp add: array_externs_def array_RWseek_def example_state_def SEEK_SET_def SEEK_CUR_def
        SEEK_END_def RW_SEEK_SET_def RW_SEEK_CUR_def RW_SEEK_END_def)
  have tl: "SDL_RWtell array_externs (st_sdl ?s) (h_file sdl_handle) =
              (0, \<lparr>rw_data = [65, 66], rw_pos = 0, rw_error = []\<rparr>)"
    by (simp add: array_externs_def example_state_def)
  have sz: "SDL_RWsize array_externs (st_sdl ?s) (h_file sdl_handle) =
              (2, \<lparr>rw_data = [65, 66], rw_pos = 0, rw_error = []\<rparr>)"
    by (simp add: array_externs_def example_state_def)
  have c1: "\<exists>buf' s'. File_SDLRead array_externs ?s 1 [0, 0, 0] 1 3 = Inr ((2, buf'), s') \<and>
               lasterror_refreshed array_externs ?s 1
                 \<lparr>rw_data = [65, 66], rw_pos = 2, rw_error = []\<rparr> s'"
    using all rd by force
  have "\<exists>r' s'. File_SDLSeek array_externs ?s 1 (- 1) SEEK_SET = Inr (r', s') \<and>
              lasterror_refreshed array_externs ?s 1
                \<lparr>rw_data = [65, 66], rw_pos = 0, rw_error = ''Error seeking in datastream''\<rparr> s'"
    using all sk by blast
  then obtain r' s' where
    run: "File_SDLSeek array_externs ?s 1 (- 1) SEEK_SET = Inr (r', s')" and
    rf: "lasterror_refreshed array_externs ?s 1
           \<lparr>rw_data = [65, 66], rw_pos = 0, rw_error = ''Error seeking in datastream''\<rparr> s'"
    by blast
  from rf have "LastErrorMessage s' 1 = Inr (Some ''Error seeking in datastream'')"
    by (simp add: lasterror_refreshed_def array_externs_def)
  with run rf have c2: "\<exists>r' s'. File_SDLSeek array_externs ?s 1 (- 1) SEEK_SET = Inr (r', s') \<and>
              lasterror_refreshed array_externs ?s 1
                \<lparr>rw_data = [65, 66], rw_pos = 0, rw_error = ''Error seeking in datastream''\<rparr> s' \<and>
              LastErrorMessage s' 1 = Inr (Some ''Error seeking in datastream'')"
    by blast
  have c3: "\<exists>s'. File_SDLTell array_externs ?s 1 = Inr (0, s') \<and>
          lasterror_refreshed array_externs ?s 1
            \<lparr>rw_data = [65, 66], rw_pos = 0, rw_error = []\<rparr> s'"
    using all tl by blast
  have "to_size_t 2 = 2" by (simp add: to_size_t_id)
  then have c4: "\<exists>s'. File_SDLSize array_externs ?s 1 = Inr (2, s') \<and>
          lasterror_refreshed array_externs ?s 1
            \<lparr>rw_data = [65, 66], rw_pos = 0, rw_error = []\<rparr> s'"
    using all sz by force
  from example_live_handle c1 c2 c3 c4 show ?thesis by blast
qed

section \<open>The size of a standard stream\<close>

lemma get_FILE_update: "get_FILE (AList.update p F st) p = Inr F"
  by (simp add: get_FILE_def update_conv')

lemma get_FILE_iff: "get_FILE st p = Inr F \<longleftrightarrow> map_of st p = Some F"
  by (simp add: get_FILE_def split: option.splits)

lemma File_StandardSizeImpl_effect:
  assumes "get_FILE st p = Inr F"
    and "f_pos F \<le> LONG_MAX" and "length (f_data F) \<le> LONG_MAX"
  shows "File_StandardSizeImpl st p =
           Inr (length (f_data F), AList.update p (F\<lparr>f_eof := False\<rparr>) st)"
proof -
  have lm: "LONG_MAX < 2 ^ 63" by (simp add: LONG_MAX_def)
  have t0: "ftell st p = Inr (int (f_pos F))"
    using assms by (simp add: ftell_def ftell_FILE_def)
  have cur: "to_size_t (int (f_pos F)) = f_pos F"
    using assms(2) lm by (simp add: to_size_t_id)
  define F1 where "F1 = F\<lparr>f_pos := length (f_data F), f_eof := False\<rparr>"
  define st1 where "st1 = AList.update p F1 st"
  have s1: "fseek st p 0 SEEK_END = Inr (0, st1)"
    using assms by (simp add: fseek_def fseek_FILE_def seek_base_def SEEK_SET_def SEEK_CUR_def
        SEEK_END_def F1_def st1_def)
  have g1: "get_FILE st1 p = Inr F1" by (simp add: st1_def get_FILE_update)
  have t1: "ftell st1 p = Inr (int (length (f_data F)))"
    using g1 assms(3) by (simp add: ftell_def ftell_FILE_def F1_def)
  have len: "to_size_t (int (length (f_data F))) = length (f_data F)"
    using assms(3) lm by (simp add: to_size_t_id)
  have rest: "to_long (f_pos F) = int (f_pos F)"
    using assms(2) lm by (simp add: to_long_id)
  have s2: "fseek st1 p (int (f_pos F)) SEEK_SET =
              Inr (0, AList.update p (F\<lparr>f_eof := False\<rparr>) st)"
    using g1 assms(2) by (simp add: fseek_def fseek_FILE_def seek_base_def SEEK_SET_def F1_def st1_def)
  show ?thesis
    unfolding File_StandardSizeImpl_def Let_def
    by (simp add: t0 cur s1 t1 len rest s2)
qed

lemma example_get_FILE:
  "get_FILE (st_stdio (example_state bs pos)) (h_file standard_handle) =
     Inr \<lparr>f_data = bs, f_pos = pos, f_eof = False, f_err = False\<rparr>"
  by (simp add: example_state_def get_FILE_def standard_handle_def)

text \<open>
  Claim C9. For a handle of kind Standard on an open stream, \<^verbatim>\<open>File_StandardSize\<close>
  returns the length of the stream, which it gets by seeking to the end and
  reading the position there, and seeks back to the position it found at the
  start: \<^verbatim>\<open>File_StandardTell\<close> gives the same position after the call as before.
  (The call clears the end-of-file indicator and changes nothing else of the
  stream.)
\<close>

theorem File_StandardSize_restores_position:
  assumes "get_handle (st_heap s) f = Inr h"
    and "get_FILE (st_stdio s) (h_file h) = Inr F"
    and "f_pos F \<le> LONG_MAX" and "length (f_data F) \<le> LONG_MAX"
  shows "\<exists>s'. File_StandardSize s f = Inr (length (f_data F), s') \<and>
              File_StandardTell s f = Inr (int (f_pos F)) \<and>
              File_StandardTell s' f = Inr (int (f_pos F)) \<and>
              get_FILE (st_stdio s') (h_file h) = Inr (F\<lparr>f_eof := False\<rparr>)"
proof -
  let ?s' = "s\<lparr>st_stdio := AList.update (h_file h) (F\<lparr>f_eof := False\<rparr>) (st_stdio s)\<rparr>"
  have run: "File_StandardSize s f = Inr (length (f_data F), ?s')"
    using assms(1) File_StandardSizeImpl_effect [OF assms(2-4)]
    by (simp add: File_StandardSize_def)
  have before: "File_StandardTell s f = Inr (int (f_pos F))"
    using assms by (simp add: File_StandardTell_def ftell_def ftell_FILE_def)
  have g: "get_FILE (st_stdio ?s') (h_file h) = Inr (F\<lparr>f_eof := False\<rparr>)"
    by (simp add: get_FILE_update)
  have after: "File_StandardTell ?s' f = Inr (int (f_pos F))"
    using assms(1,3) g by (simp add: File_StandardTell_def ftell_def ftell_FILE_def)
  from run before after g show ?thesis by blast
qed

theorem File_StandardSize_restores_position_witness:
  "get_handle (st_heap (example_state [65, 66, 67, 68] 1)) 2 = Inr standard_handle \<and>
   get_FILE (st_stdio (example_state [65, 66, 67, 68] 1)) (h_file standard_handle) =
     Inr \<lparr>f_data = [65, 66, 67, 68], f_pos = 1, f_eof = False, f_err = False\<rparr> \<and>
   (1::nat) \<le> LONG_MAX \<and> length [65, 66, 67, 68 :: byte] \<le> LONG_MAX \<and>
   (\<exists>s'. File_StandardSize (example_state [65, 66, 67, 68] 1) 2 = Inr (4, s') \<and>
          File_StandardTell (example_state [65, 66, 67, 68] 1) 2 = Inr 1 \<and>
          File_StandardTell s' 2 = Inr 1)"
proof -
  let ?F = "\<lparr>f_data = [65, 66, 67, 68], f_pos = 1, f_eof = False, f_err = False\<rparr>"
  have b1: "f_pos ?F \<le> LONG_MAX" by (simp add: LONG_MAX_def)
  have b2: "length (f_data ?F) \<le> LONG_MAX" by (simp add: LONG_MAX_def)
  from File_StandardSize_restores_position [OF example_get_handle_2 example_get_FILE b1 b2]
  obtain s' where
    r1: "File_StandardSize (example_state [65, 66, 67, 68] 1) 2 = Inr (length (f_data ?F), s')"
    and r2: "File_StandardTell (example_state [65, 66, 67, 68] 1) 2 = Inr (int (f_pos ?F))"
    and r3: "File_StandardTell s' 2 = Inr (int (f_pos ?F))"
    by blast
  from r1 have "File_StandardSize (example_state [65, 66, 67, 68] 1) 2 = Inr (4, s')" by simp
  moreover from r2 have "File_StandardTell (example_state [65, 66, 67, 68] 1) 2 = Inr 1" by simp
  moreover from r3 have "File_StandardTell s' 2 = Inr 1" by simp
  ultimately have "\<exists>s'. File_StandardSize (example_state [65, 66, 67, 68] 1) 2 = Inr (4, s') \<and>
          File_StandardTell (example_state [65, 66, 67, 68] 1) 2 = Inr 1 \<and>
          File_StandardTell s' 2 = Inr 1"
    by blast
  moreover have "(1::nat) \<le> LONG_MAX \<and> length [65, 66, 67, 68 :: byte] \<le> LONG_MAX"
    by (simp add: LONG_MAX_def)
  ultimately show ?thesis
    using example_get_handle_2 [of "[65, 66, 67, 68]" 1] example_get_FILE [of "[65, 66, 67, 68]" 1]
    by blast
qed

section \<open>Reading a line\<close>

subsection \<open>The standard stream\<close>

lemma fgets_chars_length: "length (fst (fgets_chars k F)) \<le> k"
proof (induction k arbitrary: F)
  case 0
  then show ?case by simp
next
  case (Suc k)
  obtain c F1 where g: "fgetc_FILE F = (c, F1)" by (cases "fgetc_FILE F")
  obtain cs F2 where r: "fgets_chars k F1 = (cs, F2)" by (cases "fgets_chars k F1")
  from Suc.IH [of F1] r have "length cs \<le> k" by simp
  with g r show ?case by simp
qed

lemma store_terminated_line:
  assumes "length cs + 1 \<le> n" and "n \<le> length str"
  shows "\<exists>str1. store_bytes str (cs @ [0]) = Inr str1 \<and> stays_within str (int n) (True, str1)"
proof -
  let ?str1 = "(cs @ [0]) @ drop (length (cs @ [0])) str"
  have st: "store_bytes str (cs @ [0]) = Inr ?str1"
    using assms by (simp add: store_bytes_def)
  have l: "length ?str1 = length str" using assms by simp
  from assms(1) have "\<exists>m. n = Suc (length cs) + m"
    by presburger
  then obtain m where n: "n = Suc (length cs) + m" by blast
  have "drop n ?str1 = drop m (drop (Suc (length cs)) str)"
    by (simp add: n)
  also have "\<dots> = drop n str"
    by (simp add: n add.commute)
  finally have d: "drop n ?str1 = drop n str" .
  have "take n ?str1 = cs @ 0 # take m (drop (Suc (length cs)) str)"
    by (simp add: n)
  then have z: "0 \<in> set (take n ?str1)" by simp
  from st l d z show ?thesis by (simp add: stays_within_def)
qed

lemma fgets_FILE_stays_within:
  assumes "1 \<le> num" and "num \<le> int (length str)"
  shows "\<exists>r F1. fgets_FILE F str num = Inr (r, F1) \<and> stays_within str num r"
proof -
  obtain cs F1 where c: "fgets_chars (nat (num - 1)) F = (cs, F1)"
    by (cases "fgets_chars (nat (num - 1)) F")
  from fgets_chars_length [of "nat (num - 1)" F] c have len: "length cs \<le> nat (num - 1)"
    by simp
  show ?thesis
  proof (cases "cs = [] \<and> 1 < num")
    case True
    with assms c show ?thesis by (simp add: fgets_FILE_def stays_within_def)
  next
    case False
    from len assms have "length cs + 1 \<le> nat num" "nat num \<le> length str" by simp_all
    from store_terminated_line [OF this] assms(1)
    obtain str1 where "store_bytes str (cs @ [0]) = Inr str1" "stays_within str num (True, str1)"
      by auto
    with False assms c show ?thesis by (auto simp: fgets_FILE_def)
  qed
qed

subsection \<open>The abstract stream\<close>

lemma File_SDLGetString_run:
  assumes "live_handle s f h" and "1 \<le> num" and "num \<le> INT_MAX"
    and "num \<le> int (length str)"
    and "SDL_RWread X (st_sdl s) (h_file h) 1 (nat (num - 1)) = ((n, bs), w)"
    and "length bs \<le> nat (num - 1)"
  shows "\<exists>s'. File_SDLGetString X s f str num =
            Inr ((n \<noteq> 0, if n = 0 then bs @ drop (length bs) str
                          else (bs @ drop (length bs) str)[nat (num - 1) := 0]), s') \<and>
          (n = 0 \<longrightarrow> lasterror_refreshed X s f w s') \<and>
          (n \<noteq> 0 \<longrightarrow> s' = s\<lparr>st_sdl := w\<rparr>)"
proof -
  from assms(1) have gh: "get_handle (st_heap s) f = Inr h"
    by (simp add: live_handle_def)
  have req: "to_size_t (num - 1) = nat (num - 1)"
    using assms(2,3) by (simp add: to_size_t_id INT_MAX_def)
  have fit: "length bs \<le> length str" using assms(2,4,6) by linarith
  have st: "store_bytes str bs = Inr (bs @ drop (length bs) str)"
    using fit by (simp add: store_bytes_def)
  show ?thesis
  proof (cases "n = 0")
    case True
    from File_SDLSetError_after_primitive [OF assms(1), of X w]
    obtain s' where "File_SDLSetError X (s\<lparr>st_sdl := w\<rparr>) f = Inr s'"
      "lasterror_refreshed X s f w s'" by blast
    with True gh req st assms(5) show ?thesis
      by (simp add: File_SDLGetString_def)
  next
    case False
    have "store_at (bs @ drop (length bs) str) (num - 1) 0 =
            Inr ((bs @ drop (length bs) str)[nat (num - 1) := 0])"
      using assms(2,4) fit by (simp add: store_at_def)
    with False gh req st assms(5) show ?thesis
      by (simp add: File_SDLGetString_def)
  qed
qed

lemma SDL_string_stays_within:
  assumes "1 \<le> num" and "num \<le> int (length str)" and "length bs \<le> nat (num - 1)"
  shows "stays_within str num (False, bs @ drop (length bs) str)"
    and "stays_within str num (True, (bs @ drop (length bs) str)[nat (num - 1) := 0])"
proof -
  let ?str1 = "bs @ drop (length bs) str"
  have fit: "length bs \<le> length str" using assms by linarith
  then have l: "length ?str1 = length str" by simp
  have lt: "length bs \<le> nat num" using assms by linarith
  then obtain m where n: "nat num = length bs + m" using le_Suc_ex by blast
  have d: "drop (nat num) ?str1 = drop (nat num) str"
    by (simp add: n add.commute)
  from l d show "stays_within str num (False, ?str1)"
    by (simp add: stays_within_def)
  have i: "nat (num - 1) < nat num" using assms(1) by simp
  have d2: "drop (nat num) (?str1[nat (num - 1) := 0]) = drop (nat num) str"
    using i d by (simp only: drop_update_cancel)
  have "nat (num - 1) < length (take (nat num) ?str1)"
    using i assms(1,2) l by simp
  then have "0 \<in> set ((take (nat num) ?str1)[nat (num - 1) := 0])"
    by (rule set_update_memI)
  then have z: "0 \<in> set (take (nat num) (?str1[nat (num - 1) := 0]))"
    using i by (simp only: take_update_swap)
  from l d2 z show "stays_within str num (True, ?str1[nat (num - 1) := 0])"
    by (simp add: stays_within_def)
qed

subsection \<open>Runs on the example state\<close>

lemma example_live_handle_2: "live_handle (example_state bs pos) 2 standard_handle"
  by (simp add: live_handle_def example_state_def get_handle_def standard_handle_def)

lemma example_read_short:
  "SDL_RWread array_externs (st_sdl (example_state [65, 66] 0)) (h_file sdl_handle) 1 (nat (5 - 1)) =
     ((2, [65, 66]), \<lparr>rw_data = [65, 66], rw_pos = 2, rw_error = []\<rparr>)"
  by (simp add: array_externs_def array_RWread_def example_state_def)

lemma example_read_empty:
  "SDL_RWread array_externs (st_sdl (example_state [65, 66] 2)) (h_file sdl_handle) 1 (nat (5 - 1)) =
     ((0, []), \<lparr>rw_data = [65, 66], rw_pos = 2, rw_error = []\<rparr>)"
  by (simp add: array_externs_def array_RWread_def example_state_def)

lemma example_bounds:
  "(1::int) \<le> 5" "(5::int) \<le> INT_MAX" "(5::int) \<le> int (length [1, 1, 1, 1, 1, 1 :: byte])"
  "length [65, 66 :: byte] \<le> nat (5 - 1)" "length ([] :: byte list) \<le> nat (5 - 1)"
  by (simp_all add: INT_MAX_def)

lemma example_GetString_short:
  "returned (File_SDLGetString array_externs (example_state [65, 66] 0) 1 [1, 1, 1, 1, 1, 1] 5) =
     Inr (True, [65, 66, 1, 1, 0, 1])"
proof -
  from File_SDLGetString_run [OF example_live_handle example_bounds(1-3) example_read_short
      example_bounds(4)]
  obtain s' where "File_SDLGetString array_externs (example_state [65, 66] 0) 1 [1, 1, 1, 1, 1, 1] 5 =
     Inr ((True, [65, 66, 1, 1, 1, 1][nat (5 - 1) := 0]), s')"
    by auto
  moreover have "[65, 66, 1, 1, 1, 1 :: byte][nat (5 - 1) := 0] = [65, 66, 1, 1, 0, 1]"
    by (simp add: eval_nat_numeral)
  ultimately show ?thesis by (simp add: returned_def)
qed

lemma example_fgets_chars:
  "fgets_chars (Suc (Suc (Suc (Suc 0))))
     \<lparr>f_data = [65, 10, 66], f_pos = 0, f_eof = False, f_err = False\<rparr> =
   ([65, 10], \<lparr>f_data = [65, 10, 66], f_pos = Suc (Suc 0), f_eof = False, f_err = False\<rparr>)"
  by (simp add: fgetc_FILE_def EOF_def)

lemma example_fgets:
  "returned (File_StandardGetString (example_state [65, 10, 66] 0) 2 [1, 1, 1, 1, 1, 1] 5) =
     Inr (True, [65, 10, 0, 1, 1, 1])"
proof -
  have n: "nat (5 - 1) = Suc (Suc (Suc (Suc 0)))" by simp
  have "fgets_FILE \<lparr>f_data = [65, 10, 66], f_pos = 0, f_eof = False, f_err = False\<rparr>
          [1, 1, 1, 1, 1, 1] 5 =
        Inr ((True, [65, 10, 0, 1, 1, 1]),
             \<lparr>f_data = [65, 10, 66], f_pos = Suc (Suc 0), f_eof = False, f_err = False\<rparr>)"
    unfolding fgets_FILE_def n example_fgets_chars
    by (simp add: store_bytes_def)
  then show ?thesis
    by (simp add: File_StandardGetString_def example_state_def get_handle_def standard_handle_def
        fgets_def get_FILE_def returned_def)
qed

subsection \<open>A short read\<close>

lemma example_fgets_chars_short:
  "fgets_chars (Suc (Suc (Suc (Suc 0))))
     \<lparr>f_data = [65, 66], f_pos = 0, f_eof = False, f_err = False\<rparr> =
   ([65, 66], \<lparr>f_data = [65, 66], f_pos = Suc (Suc 0), f_eof = True, f_err = False\<rparr>)"
  by (simp add: fgetc_FILE_def EOF_def)

lemma example_fgets_short:
  "returned (File_StandardGetString (example_state [65, 66] 0) 2 [1, 1, 1, 1, 1, 1] 5) =
     Inr (True, [65, 66, 0, 1, 1, 1])"
proof -
  have n: "nat (5 - 1) = Suc (Suc (Suc (Suc 0)))" by simp
  have "fgets_FILE \<lparr>f_data = [65, 66], f_pos = 0, f_eof = False, f_err = False\<rparr>
          [1, 1, 1, 1, 1, 1] 5 =
        Inr ((True, [65, 66, 0, 1, 1, 1]),
             \<lparr>f_data = [65, 66], f_pos = Suc (Suc 0), f_eof = True, f_err = False\<rparr>)"
    unfolding fgets_FILE_def n example_fgets_chars_short
    by (simp add: store_bytes_def)
  then show ?thesis
    by (simp add: File_StandardGetString_def example_state_def get_handle_def standard_handle_def
        fgets_def get_FILE_def returned_def)
qed

text \<open>
  When the primitive read returns 0, \<^verbatim>\<open>File_SDLGetString\<close> fails: it returns the null
  pointer after refreshing \<open>lasterror\<close>.
\<close>

lemma File_SDLGetString_empty_read:
  assumes "live_handle s f h" and "1 \<le> num" and "num \<le> INT_MAX"
    and "num \<le> int (length str)"
    and "SDL_RWread X (st_sdl s) (h_file h) 1 (nat (num - 1)) = ((0, bs), w)"
    and "length bs \<le> nat (num - 1)"
  shows "\<exists>str' s'. File_SDLGetString X s f str num = Inr ((False, str'), s') \<and>
           lasterror_refreshed X s f w s'"
  using File_SDLGetString_run [OF assms] by auto

text \<open>
  Claim C1. For a handle on an abstract stream and an array of length \<open>L \<ge> 1\<close>,
  the line read asks the primitive read for \<open>L - 1\<close> bytes and is to fail, reporting
  no string after refreshing \<open>lasterror\<close>, whenever the primitive read returns
  fewer than \<open>L - 1\<close> bytes. \<^verbatim>\<open>File_SDLGetString\<close> tests the count for 0 only. With
  \<open>L = 5\<close> and the two bytes 65, 66 left in the stream the primitive read returns
  2; the call does not fail, it stores the terminator at index 4 and returns the
  array, whose string then runs through the two bytes at indices 2 and 3 that the
  stream never held. \<^verbatim>\<open>File_StandardGetString\<close> on the same bytes puts the terminator
  directly behind them.
\<close>

theorem File_SDLGetString_short_read_returns_array:
  "fst (fst (SDL_RWread array_externs (st_sdl (example_state [65, 66] 0)) (h_file sdl_handle)
               1 (nat (5 - 1)))) = 2 \<and>
   returned (File_SDLGetString array_externs (example_state [65, 66] 0) 1 [1, 1, 1, 1, 1, 1] 5) =
     Inr (True, [65, 66, 1, 1, 0, 1]) \<and>
   returned (File_StandardGetString (example_state [65, 66] 0) 2 [1, 1, 1, 1, 1, 1] 5) =
     Inr (True, [65, 66, 0, 1, 1, 1])"
proof -
  from example_read_short
  have "fst (fst (SDL_RWread array_externs (st_sdl (example_state [65, 66] 0)) (h_file sdl_handle)
               1 (nat (5 - 1)))) = 2"
    by (simp only: fst_conv)
  with example_GetString_short example_fgets_short show ?thesis by blast
qed

subsection \<open>The bounds of a line read\<close>

text \<open>
  Claim C5. For both backends, a live handle, an array \<open>str\<close> of at least
  \<open>maxLength\<close> bytes and \<open>maxLength \<ge> 1\<close>: the line read stores nothing at an index
  from \<open>maxLength\<close> on (the array keeps its extent and its bytes there), and when it
  returns the array there is a zero byte among the first \<open>maxLength\<close> bytes. For
  the abstract stream the primitive read is taken to store no more bytes than it
  was asked for.
\<close>

theorem GetString_stays_within_length:
  assumes "live_handle s f h" and "1 \<le> num" and "num \<le> INT_MAX"
    and "num \<le> int (length str)"
  shows "(\<forall>F. get_FILE (st_stdio s) (h_file h) = Inr F \<longrightarrow>
            (\<exists>r s'. File_StandardGetString s f str num = Inr (r, s') \<and>
                    stays_within str num r)) \<and>
         (\<forall>n bs w. SDL_RWread X (st_sdl s) (h_file h) 1 (nat (num - 1)) = ((n, bs), w) \<and>
                    length bs \<le> nat (num - 1) \<longrightarrow>
            (\<exists>r s'. File_SDLGetString X s f str num = Inr (r, s') \<and>
                    stays_within str num r))"
proof (intro conjI allI impI)
  fix F
  assume F: "get_FILE (st_stdio s) (h_file h) = Inr F"
  from assms(1) have gh: "get_handle (st_heap s) f = Inr h"
    by (simp add: live_handle_def)
  from fgets_FILE_stays_within [OF assms(2,4), of F]
  obtain r F1 where "fgets_FILE F str num = Inr (r, F1)" "stays_within str num r"
    by blast
  with gh F show "\<exists>r s'. File_StandardGetString s f str num = Inr (r, s') \<and>
                    stays_within str num r"
    by (simp add: File_StandardGetString_def fgets_def)
next
  fix n bs w
  assume rd: "SDL_RWread X (st_sdl s) (h_file h) 1 (nat (num - 1)) = ((n, bs), w) \<and>
                length bs \<le> nat (num - 1)"
  then have r1: "SDL_RWread X (st_sdl s) (h_file h) 1 (nat (num - 1)) = ((n, bs), w)"
    and r2: "length bs \<le> nat (num - 1)" by simp_all
  from File_SDLGetString_run [OF assms r1 r2]
  obtain s' where run: "File_SDLGetString X s f str num =
            Inr ((n \<noteq> 0, if n = 0 then bs @ drop (length bs) str
                          else (bs @ drop (length bs) str)[nat (num - 1) := 0]), s')"
    by blast
  from SDL_string_stays_within [OF assms(2,4) r2]
  have "stays_within str num (n \<noteq> 0, if n = 0 then bs @ drop (length bs) str
                          else (bs @ drop (length bs) str)[nat (num - 1) := 0])"
    by (cases "n = 0") simp_all
  with run show "\<exists>r s'. File_SDLGetString X s f str num = Inr (r, s') \<and>
                    stays_within str num r"
    by blast
qed

theorem GetString_stays_within_length_witness:
  "live_handle (example_state [65, 10, 66] 0) 2 standard_handle \<and>
   live_handle (example_state [65, 66] 0) 1 sdl_handle \<and>
   (1::int) \<le> 5 \<and> (5::int) \<le> INT_MAX \<and> (5::int) \<le> int (length [1, 1, 1, 1, 1, 1 :: byte]) \<and>
   (\<exists>r s'. File_StandardGetString (example_state [65, 10, 66] 0) 2 [1, 1, 1, 1, 1, 1] 5 =
              Inr (r, s') \<and> fst r \<and> stays_within [1, 1, 1, 1, 1, 1] 5 r) \<and>
   (\<exists>r s'. File_SDLGetString array_externs (example_state [65, 66] 0) 1 [1, 1, 1, 1, 1, 1] 5 =
              Inr (r, s') \<and> fst r \<and> stays_within [1, 1, 1, 1, 1, 1] 5 r)"
proof -
  from GetString_stays_within_length [OF example_live_handle_2 example_bounds(1-3),
      where X = array_externs and bs1 = "[65, 10, 66]" and pos1 = 0] example_get_FILE
  obtain r s' where
    r: "File_StandardGetString (example_state [65, 10, 66] 0) 2 [1, 1, 1, 1, 1, 1] 5 = Inr (r, s')"
      "stays_within [1, 1, 1, 1, 1, 1] 5 r"
    by blast
  with example_fgets have "fst r" by (simp add: returned_def)
  with r have a: "\<exists>r s'. File_StandardGetString (example_state [65, 10, 66] 0) 2
       [1, 1, 1, 1, 1, 1] 5 = Inr (r, s') \<and> fst r \<and> stays_within [1, 1, 1, 1, 1, 1] 5 r"
    by blast
  from GetString_stays_within_length [OF example_live_handle example_bounds(1-3),
      where X = array_externs and bs1 = "[65, 66]" and pos1 = 0]
    example_read_short example_bounds(4)
  obtain r2 s2 where
    r2: "File_SDLGetString array_externs (example_state [65, 66] 0) 1 [1, 1, 1, 1, 1, 1] 5 =
           Inr (r2, s2)"
      "stays_within [1, 1, 1, 1, 1, 1] 5 r2"
    by blast
  with example_GetString_short have "fst r2" by (simp add: returned_def)
  with r2 have b: "\<exists>r s'. File_SDLGetString array_externs (example_state [65, 66] 0) 1
       [1, 1, 1, 1, 1, 1] 5 = Inr (r, s') \<and> fst r \<and> stays_within [1, 1, 1, 1, 1, 1] 5 r"
    by blast
  from a b example_live_handle_2 [of "[65, 10, 66]" 0] example_live_handle [of "[65, 66]" 0]
    example_bounds(1-3)
  show ?thesis by blast
qed

section \<open>Seeking\<close>

text \<open>
  \<^verbatim>\<open>File_StandardSeek\<close> hands offset and origin to \<^verbatim>\<open>fseek\<close> as they are and returns
  its result. \<^verbatim>\<open>File_SDLSeek\<close> maps the three origins to the primitive's three
  origins with the same values, and answers by the primitive's result converted
  to \<^verbatim>\<open>int\<close>.
\<close>

lemma File_StandardSeek_result:
  assumes "get_handle (st_heap s) f = Inr h"
  shows "returned (File_StandardSeek s f offset origin) =
           returned (fseek (st_stdio s) (h_file h) offset origin)"
  using assms
  by (cases "fseek (st_stdio s) (h_file h) offset origin")
     (auto simp: File_StandardSeek_def returned_def)

lemma seek_origin_translation:
  "origin = SEEK_SET \<or> origin = SEEK_CUR \<or> origin = SEEK_END \<Longrightarrow>
   (if origin = SEEK_CUR then RW_SEEK_CUR
    else if origin = SEEK_END then RW_SEEK_END else RW_SEEK_SET) = origin"
  by (auto simp: SEEK_SET_def SEEK_CUR_def SEEK_END_def RW_SEEK_SET_def RW_SEEK_CUR_def
      RW_SEEK_END_def)

lemma File_SDLSeek_result:
  assumes "live_handle s f h"
    and "SDL_RWseek X (st_sdl s) (h_file h) offset
           (if origin = SEEK_CUR then RW_SEEK_CUR
            else if origin = SEEK_END then RW_SEEK_END else RW_SEEK_SET) = (r, w)"
  shows "returned (File_SDLSeek X s f offset origin) = Inr (if to_int r = - 1 then - 1 else 0)"
proof -
  from assms(1) have gh: "get_handle (st_heap s) f = Inr h"
    by (simp add: live_handle_def)
  from File_SDLSetError_after_primitive [OF assms(1), of X w]
  obtain s' where "File_SDLSetError X (s\<lparr>st_sdl := w\<rparr>) f = Inr s'" by blast
  with gh assms(2) show ?thesis
    by (simp add: File_SDLSeek_def Let_def returned_def)
qed

lemma File_SDLSeek_within_int:
  assumes "live_handle s f h"
    and "SDL_RWseek X (st_sdl s) (h_file h) offset
           (if origin = SEEK_CUR then RW_SEEK_CUR
            else if origin = SEEK_END then RW_SEEK_END else RW_SEEK_SET) = (r, w)"
    and "- (2 ^ 31) \<le> r" and "r < 2 ^ 31"
  shows "returned (File_SDLSeek X s f offset origin) = Inr (if r = - 1 then - 1 else 0)"
  using File_SDLSeek_result [OF assms(1,2)] assms(3,4) by (simp add: to_int_id)

lemma example_seek_far:
  "SDL_RWseek array_externs (st_sdl (example_state [65, 66] 0)) (h_file sdl_handle) 4294967295
     (if SEEK_SET = SEEK_CUR then RW_SEEK_CUR
      else if SEEK_SET = SEEK_END then RW_SEEK_END else RW_SEEK_SET) =
     (4294967295, \<lparr>rw_data = [65, 66], rw_pos = 4294967295, rw_error = []\<rparr>)"
  by (simp add: array_externs_def array_RWseek_def example_state_def SEEK_SET_def SEEK_CUR_def
      SEEK_END_def RW_SEEK_SET_def RW_SEEK_CUR_def RW_SEEK_END_def)

text \<open>
  Claim C10. The claim says that \<^verbatim>\<open>File_SDLSeek\<close> returns a nonzero value exactly when
  the seek primitive reports failure (\<open>- 1\<close>). The function stores the primitive's
  64-bit result in an \<^verbatim>\<open>int\<close> before it compares: a seek from the start to offset
  4294967295 succeeds, the primitive returns 4294967295, and \<^verbatim>\<open>File_SDLSeek\<close> returns
  \<open>- 1\<close>.
\<close>

theorem File_SDLSeek_reports_failure_at_4294967295:
  "fst (SDL_RWseek array_externs (st_sdl (example_state [65, 66] 0)) (h_file sdl_handle)
          4294967295 RW_SEEK_SET) = 4294967295 \<and>
   returned (File_SDLSeek array_externs (example_state [65, 66] 0) 1 4294967295 SEEK_SET) =
     Inr (- 1)"
proof -
  have "to_int 4294967295 = - 1" by (simp add: to_int_def)
  with File_SDLSeek_result [OF example_live_handle example_seek_far]
  have "returned (File_SDLSeek array_externs (example_state [65, 66] 0) 1 4294967295 SEEK_SET) =
     Inr (- 1)" by simp
  moreover have "fst (SDL_RWseek array_externs (st_sdl (example_state [65, 66] 0))
      (h_file sdl_handle) 4294967295 RW_SEEK_SET) = 4294967295"
    by (simp add: array_externs_def array_RWseek_def example_state_def RW_SEEK_SET_def
        RW_SEEK_CUR_def RW_SEEK_END_def)
  ultimately show ?thesis by blast
qed

end
